theory Spec2Isabelle
  imports Complex_Main "HOL-Library.Word"
begin

unbundle bit_operations_syntax

section \<open>JavaScript numbers\<close>

text \<open>
  A JavaScript number is an IEEE 754 double. A finite one is modelled by the real it
  stands for, and an arithmetic operation by the exact operation followed by the rounding
  to the nearest double, a tie going to the even significand. \<open>expoente\<close> is the binary
  exponent of the double: the largest \<open>e\<close> from 1023 down to \<open>-1022\<close> with
  \<open>2^e \<le> |x|\<close> (\<open>-1022\<close> below the normal range, where the spacing stays
  \<open>2^-1074\<close>), \<open>ulp\<close> is the spacing of the doubles at that exponent, 52 bits
  below it. A result beyond the largest double, which is \<open>Infinity\<close> in the source, is
  not modelled.
\<close>

fun expoenteDe :: "nat \<Rightarrow> int \<Rightarrow> real \<Rightarrow> int" where
  "expoenteDe 0 e x = e"
| "expoenteDe (Suc n) e x = (if x < 2 powi e then expoenteDe n (e - 1) x else e)"

definition expoente :: "real \<Rightarrow> int" where
  "expoente x = expoenteDe 2045 1023 \<bar>x\<bar>"

definition ulp :: "real \<Rightarrow> real" where
  "ulp x = 2 powi (expoente x - 52)"

text \<open>The nearest integer, a half going to the even one.\<close>

definition arredondarPar :: "real \<Rightarrow> int" where
  "arredondarPar y =
     (let f = \<lfloor>y\<rfloor>; r = y - of_int f
      in if r < 1 / 2 then f else if 1 / 2 < r then f + 1 else if even f then f else f + 1)"

definition emDouble :: "real \<Rightarrow> real" where
  "emDouble x = sgn x * (of_int (arredondarPar (\<bar>x\<bar> / ulp x)) * ulp x)"

text \<open>The product \<open>a * b\<close> of the source.\<close>

definition vezes :: "real \<Rightarrow> real \<Rightarrow> real" where
  "vezes a b = emDouble (a * b)"

section \<open>Admin panel: plans and their conversion to minutes\<close>

text \<open>
  A plan as \<open>getDefaultPlans\<close> and \<open>handleCreatePlan\<close> build it:
  \<open>{ id, name, value, unit }\<close>. The value is a JavaScript number (a finite one; on
  these \<open>Number(plan.value) || 0\<close> is the value itself, since the only falsy finite
  number is 0). The unit is the string stored in the plan.
\<close>

record plan =
  plan_id :: nat
  plan_name :: string
  plan_value :: real
  plan_unit :: string

text \<open>
  \<open>Math.round\<close> rounds to the nearest integer, a half towards plus infinity: it is
  \<open>\<lfloor>x + 1/2\<rfloor>\<close>, which is what \<^const>\<open>round\<close> is, and it is exact on a
  double. The products are those of the source, one after the other from the left:
  \<open>v * 30 * 24 * 60\<close> is \<open>((v * 30) * 24) * 60\<close>, each product rounded to a double.
  \<open>convertPlanToMinutes\<close> is the same text in both panels that have plans.
\<close>

definition convertPlanToMinutes :: "plan \<Rightarrow> int" where
  "convertPlanToMinutes p =
     (let v = plan_value p in
      if plan_unit p = ''minutes'' then max 1 (round v)
      else if plan_unit p = ''hours'' then max 1 (round (vezes v 60))
      else if plan_unit p = ''days'' then max 1 (round (vezes (vezes v 24) 60))
      else if plan_unit p = ''weeks'' then max 1 (round (vezes (vezes (vezes v 7) 24) 60))
      else if plan_unit p = ''months'' then max 1 (round (vezes (vezes (vezes v 30) 24) 60))
      else max 1 (round v))"

text \<open>
  The unit factor as the specification tabulates it: 1, 60, 1440, 10080 and 43200
  minutes for minutes, hours, days, weeks and months; any other unit counts as minutes.
\<close>

definition unitFactor :: "string \<Rightarrow> real" where
  "unitFactor u =
     (if u = ''minutes'' then 1
      else if u = ''hours'' then 60
      else if u = ''days'' then 1440
      else if u = ''weeks'' then 10080
      else if u = ''months'' then 43200
      else 1)"

section \<open>Strings, numbers and errors\<close>

text \<open>
  A JavaScript string is modelled as a \<^typ>\<open>string\<close>: the list of its code units, for
  the code units below 256. \<open>length\<close> is then the \<open>.length\<close> of the source.
  White space (\<open>\s\<close> in a regular expression, and what \<open>trim\<close> removes) is, in that
  range: tab, line feed, vertical tab, form feed, carriage return, space and the
  no-break space.
\<close>

definition ehEspaco :: "char \<Rightarrow> bool" where
  "ehEspaco c = (c \<in> set [CHR 0x09, CHR 0x0A, CHR 0x0B, CHR 0x0C, CHR 0x0D, CHR 0x20, CHR 0xA0])"

definition ehDigito :: "char \<Rightarrow> bool" where
  "ehDigito c = (c \<in> set ''0123456789'')"

definition trim :: "string \<Rightarrow> string" where
  "trim s = rev (dropWhile ehEspaco (rev (dropWhile ehEspaco s)))"

text \<open>
  \<open>String(n)\<close> of a non-negative integer is its decimal numeral, and
  \<open>n.toString(36)\<close> its numeral in base 36 with the digits \<open>0-9a-z\<close>.
\<close>

definition digitoDe :: "nat \<Rightarrow> char" where
  "digitoDe d = ''0123456789abcdefghijklmnopqrstuvwxyz'' ! (d mod 36)"

fun toStringRadix :: "nat \<Rightarrow> nat \<Rightarrow> string" where
  "toStringRadix r n =
     (if r < 2 \<or> n < r then [digitoDe n]
      else toStringRadix r (n div r) @ [digitoDe (n mod r)])"

declare toStringRadix.simps [simp del]

definition String_nat :: "nat \<Rightarrow> string" where
  "String_nat n = toStringRadix 10 n"

text \<open>
  \<open>parseInt(text)\<close> with no radix: leading white space is skipped, a sign is read, a
  prefix \<open>0x\<close> or \<open>0X\<close> selects base 16, and the longest run of digits of the base is
  the number; with no digit the result is \<open>NaN\<close>, here \<open>None\<close>. The result is kept as
  an exact integer.
\<close>

definition valorDigito :: "char \<Rightarrow> nat option" where
  "valorDigito c =
     (if c \<in> set ''0123456789'' then Some (of_char c - 48)
      else if c \<in> set ''abcdef'' then Some (of_char c - 87)
      else if c \<in> set ''ABCDEF'' then Some (of_char c - 55)
      else None)"

definition ehDigitoBase :: "nat \<Rightarrow> char \<Rightarrow> bool" where
  "ehDigitoBase r c = (case valorDigito c of None \<Rightarrow> False | Some d \<Rightarrow> d < r)"

definition valorNumeral :: "nat \<Rightarrow> string \<Rightarrow> nat" where
  "valorNumeral r ds = foldl (\<lambda>acc c. acc * r + (case valorDigito c of None \<Rightarrow> 0 | Some d \<Rightarrow> d)) 0 ds"

definition parseIntSemSinal :: "string \<Rightarrow> nat option" where
  "parseIntSemSinal s =
     (let (r, t) = (if take 2 s = ''0x'' \<or> take 2 s = ''0X'' then (16, drop 2 s) else (10, s));
          z = takeWhile (ehDigitoBase r) t
      in if z = [] then None else Some (valorNumeral r z))"

definition parseInt :: "string \<Rightarrow> int option" where
  "parseInt txt =
     (let s = dropWhile ehEspaco txt in
      case s of
        [] \<Rightarrow> None
      | c # cs \<Rightarrow>
          if c = CHR ''-'' then map_option (\<lambda>n. - int n) (parseIntSemSinal cs)
          else if c = CHR ''+'' then map_option int (parseIntSemSinal cs)
          else map_option int (parseIntSemSinal s))"

text \<open>\<open>n || d\<close> on the result of \<open>parseInt\<close>: \<open>NaN\<close> and 0 are falsy.\<close>

definition ouPadrao :: "int option \<Rightarrow> int \<Rightarrow> int" where
  "ouPadrao n d = (case n of None \<Rightarrow> d | Some k \<Rightarrow> if k = 0 then d else k)"

text \<open>
  The source reports a failure by writing a message into the page (or by \<open>alert\<close>) and
  returning. A message is named here after its text; the error carries the class the
  specification gives to the failure. \<open>SyntaxError\<close> and \<open>TypeError\<close> are the
  exceptions of the runtime (\<open>JSON.parse\<close> of a malformed text; a property of
  \<open>null\<close>).
\<close>

datatype mensagem =
    SelecioneUmPlano | TempoCustomMinimo | ApenasAdminCriaUsuarios | UsuarioMinimo3
  | SenhaMinimo4 | UsuarioJaExiste | ApenasAdminDeletaPlanos
  | EmailInvalido | UsuarioNaoEncontrado | SenhaIncorreta | NomeMinimo3 | SenhaMinimo6
  | SenhasNaoCoincidem | EmailJaRegistrado | AdminNaoEncontrado
  | PrecisaEstarLogado | ItemNaoDisponivel | ItemJaNoCarrinho
  | CampoObrigatorio string | CartaoInvalido | ValidadeInvalida | CvvInvalido
  | AcessoNegado | NomeInvalido | EmailJaCadastrado | PreenchaTodosOsCampos
  | PrecoMaiorQueZero | ProdutorNaoEncontrado | SelecioneUmProvedor

datatype erro =
    ValidationError mensagem
  | AuthError mensagem
  | NotFoundError mensagem
  | DuplicateError mensagem
  | PagamentoRecusado
  | SyntaxError
  | TypeError

section \<open>Admin panel: state, users and plans\<close>

text \<open>
  \<open>AppState\<close> of the admin panel: the users, the plans and the current user, with the
  three texts it keeps in \<open>localStorage\<close> (keys \<open>users\<close>, \<open>plans\<close>) and
  \<open>sessionStorage\<close> (key \<open>currentUser\<close>); \<open>None\<close> is an absent key. Writing to
  the storage is taken to succeed.
\<close>

record user =
  user_id :: nat
  username :: string
  password :: string
  loginTime :: int
  createdAt :: string
  isAdmin :: bool

record app_state =
  users :: "user list"
  plans :: "plan list"
  currentUser :: "user option"
  ls_users :: "string option"
  ls_plans :: "string option"
  ss_currentUser :: "string option"

text \<open>
  \<open>JSON.stringify\<close> and \<open>JSON.parse\<close> belong to the runtime and are parameters of the
  model. A parser gives \<open>None\<close> where \<open>JSON.parse\<close> throws its \<open>SyntaxError\<close>, and
  otherwise the document read at the type the panel uses it at.
\<close>

record admin_env =
  stringify_users :: "user list \<Rightarrow> string"
  stringify_plans :: "plan list \<Rightarrow> string"
  stringify_user :: "user \<Rightarrow> string"
  parse_users :: "string \<Rightarrow> user list option"
  parse_plans :: "string \<Rightarrow> plan list option"
  parse_user :: "string \<Rightarrow> user option option"

definition getDefaultUsers :: "string \<Rightarrow> user list" where
  "getDefaultUsers agora =
     [\<lparr>user_id = 1, username = ''admin'', password = ''admin123'', loginTime = 60,
       createdAt = agora, isAdmin = True\<rparr>]"

definition getDefaultPlans :: "plan list" where
  "getDefaultPlans =
     [\<lparr>plan_id = 1, plan_name = ''Padr'' @ [CHR 0xE3] @ ''o 30 minutos'', plan_value = 30, plan_unit = ''minutes''\<rparr>,
      \<lparr>plan_id = 2, plan_name = ''Di'' @ [CHR 0xE1] @ ''rio'', plan_value = 1, plan_unit = ''days''\<rparr>,
      \<lparr>plan_id = 3, plan_name = ''Semanal'', plan_value = 1, plan_unit = ''weeks''\<rparr>,
      \<lparr>plan_id = 4, plan_name = ''Mensal'', plan_value = 1, plan_unit = ''months''\<rparr>]"

text \<open>
  \<open>loadUserData\<close>: \<open>stored ? JSON.parse(stored) : this.getDefaultUsers()\<close>, then the
  same for the session user. An absent key and the empty text are falsy. There is no
  \<open>try\<close> around either \<open>JSON.parse\<close>: its exception leaves the method, with the
  assignments made so far.
\<close>

definition loadUserData :: "admin_env \<Rightarrow> string \<Rightarrow> app_state \<Rightarrow> erro option \<times> app_state" where
  "loadUserData env agora s =
     (case (case ls_users s of
              None \<Rightarrow> Some (getDefaultUsers agora)
            | Some stored \<Rightarrow> if stored = [] then Some (getDefaultUsers agora) else parse_users env stored) of
        None \<Rightarrow> (Some SyntaxError, s)
      | Some us \<Rightarrow>
          (let s1 = s\<lparr>users := us\<rparr> in
           case (case ss_currentUser s of
                   None \<Rightarrow> Some None
                 | Some sessionUser \<Rightarrow> if sessionUser = [] then Some None else parse_user env sessionUser) of
             None \<Rightarrow> (Some SyntaxError, s1)
           | Some cu \<Rightarrow> (None, s1\<lparr>currentUser := cu\<rparr>)))"

definition saveUsers :: "admin_env \<Rightarrow> app_state \<Rightarrow> app_state" where
  "saveUsers env s = s\<lparr>ls_users := Some (stringify_users env (users s))\<rparr>"

definition savePlans :: "admin_env \<Rightarrow> app_state \<Rightarrow> app_state" where
  "savePlans env s = s\<lparr>ls_plans := Some (stringify_plans env (plans s))\<rparr>"

text \<open>\<open>this.state.currentUser && this.state.currentUser.isAdmin\<close>\<close>

definition currentUserIsAdmin :: "app_state \<Rightarrow> bool" where
  "currentUserIsAdmin s = (case currentUser s of None \<Rightarrow> False | Some u \<Rightarrow> isAdmin u)"

text \<open>
  The fields of the form \<open>createUserForm\<close> as \<open>handleCreateUser\<close> reads them;
  \<open>planSelect\<close> is \<open>None\<close> when the page has no such element.
\<close>

record create_user_form =
  newUsername :: string
  newPassword :: string
  planSelect :: "string option"
  newLoginTime :: string

text \<open>
  The login time of the new user, in the panel with roles (the first part of its
  \<open>handleCreateUser\<close>): no selection is refused, \<open>custom\<close> reads the minutes typed and
  refuses less than 1, and a plan id is converted when a plan has that id; when none has,
  \<open>loginTime\<close> keeps its initial 0.
\<close>

definition loginTime_roles :: "plan list \<Rightarrow> create_user_form \<Rightarrow> erro + int" where
  "loginTime_roles ps f =
     (let selectedPlanId = (case planSelect f of Some v \<Rightarrow> v | None \<Rightarrow> []) in
      if selectedPlanId = [] then Inl (ValidationError SelecioneUmPlano)
      else if selectedPlanId = ''custom'' then
        (let customTime = ouPadrao (parseInt (newLoginTime f)) 0 in
         if customTime < 1 then Inl (ValidationError TempoCustomMinimo) else Inr customTime)
      else
        (case find (\<lambda>p. String_nat (plan_id p) = selectedPlanId) ps of
           Some p \<Rightarrow> Inr (convertPlanToMinutes p)
         | None \<Rightarrow> Inr 0))"

text \<open>
  The rest of \<open>handleCreateUser\<close> is the same in every panel: the length of the
  trimmed username, the length of the password, the username already present, then the
  new user is pushed and the users are saved. \<open>t\<close> is \<open>Date.now()\<close> and \<open>agora\<close> is
  \<open>new Date().toISOString()\<close>.
\<close>

definition criarUsuario :: "admin_env \<Rightarrow> nat \<Rightarrow> string \<Rightarrow> string \<Rightarrow> string \<Rightarrow> int \<Rightarrow> app_state \<Rightarrow> erro option \<times> app_state" where
  "criarUsuario env t agora uname pw lt s =
     (if length uname < 3 then (Some (ValidationError UsuarioMinimo3), s)
      else if length pw < 4 then (Some (ValidationError SenhaMinimo4), s)
      else if list_ex (\<lambda>u. username u = uname) (users s) then (Some (ValidationError UsuarioJaExiste), s)
      else
        (let newUser = \<lparr>user_id = t, username = uname, password = pw, loginTime = lt,
                         createdAt = agora, isAdmin = False\<rparr>
         in (None, saveUsers env (s\<lparr>users := users s @ [newUser]\<rparr>))))"

text \<open>The panel with roles: plan first, then only an admin may create.\<close>

definition handleCreateUser_roles :: "admin_env \<Rightarrow> nat \<Rightarrow> string \<Rightarrow> create_user_form \<Rightarrow> app_state \<Rightarrow> erro option \<times> app_state" where
  "handleCreateUser_roles env t agora f s =
     (case loginTime_roles (plans s) f of
        Inl e \<Rightarrow> (Some e, s)
      | Inr lt \<Rightarrow>
          if \<not> currentUserIsAdmin s then (Some (AuthError ApenasAdminCriaUsuarios), s)
          else criarUsuario env t agora (trim (newUsername f)) (newPassword f) lt s)"

text \<open>
  The panel with plans and no roles: an absent select counts as \<open>custom\<close>, the minutes
  typed default to 30 when they parse to \<open>NaN\<close> or 0, and a plan id that is not
  \<open>custom\<close> replaces them when a plan has that id.
\<close>

definition loginTime_plans :: "plan list \<Rightarrow> create_user_form \<Rightarrow> int" where
  "loginTime_plans ps f =
     (let selectedPlanId = (case planSelect f of Some v \<Rightarrow> v | None \<Rightarrow> ''custom'');
          customTime = ouPadrao (parseInt (newLoginTime f)) 30
      in if selectedPlanId \<noteq> [] \<and> selectedPlanId \<noteq> ''custom'' then
           (case find (\<lambda>p. String_nat (plan_id p) = selectedPlanId) ps of
              Some p \<Rightarrow> convertPlanToMinutes p
            | None \<Rightarrow> customTime)
         else customTime)"

definition handleCreateUser_plans :: "admin_env \<Rightarrow> nat \<Rightarrow> string \<Rightarrow> create_user_form \<Rightarrow> app_state \<Rightarrow> erro option \<times> app_state" where
  "handleCreateUser_plans env t agora f s =
     criarUsuario env t agora (trim (newUsername f)) (newPassword f) (loginTime_plans (plans s) f) s"

text \<open>
  \<open>deletePlan(id)\<close>. In the panel with roles the first statement refuses a current user
  that is not an admin; then \<open>confirm\<close> is asked (its answer is \<open>confirma\<close>), the plans
  with another id are kept and the plans are saved. The panel with plans and no roles has
  the same body without the first statement.
\<close>

definition deletePlan_plans :: "admin_env \<Rightarrow> nat \<Rightarrow> bool \<Rightarrow> app_state \<Rightarrow> erro option \<times> app_state" where
  "deletePlan_plans env i confirma s =
     (if \<not> confirma then (None, s)
      else (None, savePlans env (s\<lparr>plans := filter (\<lambda>p. plan_id p \<noteq> i) (plans s)\<rparr>)))"

definition deletePlan_roles :: "admin_env \<Rightarrow> nat \<Rightarrow> bool \<Rightarrow> app_state \<Rightarrow> erro option \<times> app_state" where
  "deletePlan_roles env i confirma s =
     (if \<not> currentUserIsAdmin s then (Some (AuthError ApenasAdminDeletaPlanos), s)
      else deletePlan_plans env i confirma s)"

text \<open>Any number of \<open>handleCreateUser\<close> submissions, one after the other.\<close>

fun handleCreateUser_roles_seq :: "admin_env \<Rightarrow> (nat \<times> string \<times> create_user_form) list \<Rightarrow> app_state \<Rightarrow> app_state" where
  "handleCreateUser_roles_seq env [] s = s"
| "handleCreateUser_roles_seq env ((t, agora, f) # cs) s =
     handleCreateUser_roles_seq env cs (snd (handleCreateUser_roles env t agora f s))"

section \<open>Shop: helpers of the payload and of the credentials\<close>

text \<open>
  \<open>sanitizar\<close> writes the text into an element and reads its \<open>innerHTML\<close> back: the
  serialisation escapes the ampersand, the no-break space and the two angle brackets.
\<close>

definition escapar :: "char \<Rightarrow> string" where
  "escapar c =
     (if c = CHR ''&'' then ''&amp;''
      else if c = CHR 0xA0 then ''&nbsp;''
      else if c = CHR ''<'' then ''&lt;''
      else if c = CHR ''>'' then ''&gt;''
      else [c])"

definition sanitizar :: "string \<Rightarrow> string" where
  "sanitizar str = concat (map escapar str)"

text \<open>
  \<open>validarEmail\<close> tests \<open>/^[^\s@]+@[^\s@]+\.[^\s@]+$/\<close>: no white space anywhere, one
  \<open>@\<close> with something before it, and after it a dot that is neither the first nor
  the last character of what follows the \<open>@\<close>.
\<close>

definition validarEmail :: "string \<Rightarrow> bool" where
  "validarEmail email =
     (let antes = takeWhile (\<lambda>c. c \<noteq> CHR ''@'') email;
          resto = dropWhile (\<lambda>c. c \<noteq> CHR ''@'') email
      in antes \<noteq> [] \<and> resto \<noteq> []
         \<and> list_all (\<lambda>c. \<not> ehEspaco c) email
         \<and> CHR ''@'' \<notin> set (tl resto)
         \<and> CHR ''.'' \<in> set (butlast (tl (tl resto))))"

definition validarSenha :: "string \<Rightarrow> bool" where
  "validarSenha senha = (6 \<le> length senha)"

text \<open>
  \<open>hashSenhaSimples\<close>: for each code unit \<open>hash = ((hash << 5) - hash) + char\<close> and
  \<open>hash = hash & hash\<close>, which keeps 32 bits read as a signed integer; the result is
  \<open>'hash_' + Math.abs(hash).toString(36)\<close>.
\<close>

definition hashSenhaSimples :: "string \<Rightarrow> string" where
  "hashSenhaSimples senha =
     ''hash_'' @ toStringRadix 36
        (nat \<bar>sint (foldl (\<lambda>hash c. push_bit 5 hash - hash + of_nat (of_char c)) (0 :: 32 word) senha)\<bar>)"

text \<open>The payload of the checkout, \<open>dados\<close>, with its nine texts.\<close>

record dados =
  d_nome :: string
  d_email :: string
  d_telefone :: string
  d_endereco :: string
  d_cidade :: string
  d_cep :: string
  d_cartao :: string
  d_validade :: string
  d_cvv :: string

text \<open>
  \<open>requiredFields\<close> in the order of the source, each with the text the payload has for
  it, and the loop that returns at the first one that is empty or blank:
  \<open>!dados[field] || dados[field].trim() === ''\<close>.
\<close>

definition requiredFields :: "dados \<Rightarrow> (string \<times> string) list" where
  "requiredFields d =
     [(''nome'', d_nome d), (''email'', d_email d), (''telefone'', d_telefone d),
      (''endereco'', d_endereco d), (''cidade'', d_cidade d), (''cep'', d_cep d),
      (''cartao'', d_cartao d), (''validade'', d_validade d), (''cvv'', d_cvv d)]"

definition campoVazio :: "string \<Rightarrow> bool" where
  "campoVazio v = (v = [] \<or> trim v = [])"

fun primeiroCampoVazio :: "(string \<times> string) list \<Rightarrow> string option" where
  "primeiroCampoVazio [] = None"
| "primeiroCampoVazio ((field, v) # fs) =
     (if campoVazio v then Some field else primeiroCampoVazio fs)"

text \<open>
  The three patterns: \<open>/^\d{16}$/\<close> on the card number without its white space,
  \<open>/^\d{2}\/\d{2}$/\<close> on the expiry and \<open>/^\d{3}$/\<close> on the CVV.
\<close>

definition cartaoOk :: "string \<Rightarrow> bool" where
  "cartaoOk cartao =
     (let c = filter (\<lambda>x. \<not> ehEspaco x) cartao in length c = 16 \<and> list_all ehDigito c)"

fun validadeOk :: "string \<Rightarrow> bool" where
  "validadeOk [m1, m2, b, a1, a2] =
     (ehDigito m1 \<and> ehDigito m2 \<and> b = CHR ''/'' \<and> ehDigito a1 \<and> ehDigito a2)"
| "validadeOk _ = False"

definition cvvOk :: "string \<Rightarrow> bool" where
  "cvvOk cvv = (length cvv = 3 \<and> list_all ehDigito cvv)"

text \<open>\<open>validarDadosCompra\<close>: \<open>Inr ()\<close> is \<open>{ valido: true }\<close>, \<open>Inl\<close> carries the \<open>erro\<close>.\<close>

definition validarDadosCompra :: "dados \<Rightarrow> erro + unit" where
  "validarDadosCompra d =
     (case primeiroCampoVazio (requiredFields d) of
        Some field \<Rightarrow> Inl (ValidationError (CampoObrigatorio field))
      | None \<Rightarrow>
          if \<not> validarEmail (d_email d) then Inl (ValidationError EmailInvalido)
          else if \<not> cartaoOk (d_cartao d) then Inl (ValidationError CartaoInvalido)
          else if \<not> validadeOk (d_validade d) then Inl (ValidationError ValidadeInvalida)
          else if \<not> cvvOk (d_cvv d) then Inl (ValidationError CvvInvalido)
          else Inr ())"

section \<open>Shop: the state\<close>

text \<open>
  An item of a producer, the line of the cart made of it (\<open>{ ...item, produtorNome }\<close>),
  a producer, a user, an order and the payment configuration, with the fields the source
  gives them. Prices are JavaScript numbers, modelled as reals. The admin object has no
  \<open>pedidos\<close> field, a user has the list of its order ids.
\<close>

record item =
  item_id :: string
  item_nome :: string
  item_descricao :: string
  item_preco :: real
  item_produtorId :: string
  item_disponivel :: bool

record linha =
  linha_id :: string
  linha_nome :: string
  linha_descricao :: string
  linha_preco :: real
  linha_produtorId :: string
  linha_disponivel :: bool
  linha_produtorNome :: string

record produtor =
  prod_id :: string
  prod_nome :: string
  prod_email :: string
  listaDeItens :: "item list"

record usuario =
  usr_id :: string
  usr_nome :: string
  usr_email :: string
  senhaHash :: string
  role :: string
  usr_pedidos :: "string list option"

record pedido =
  ped_id :: string
  ped_usuarioId :: string
  ped_usuarioNome :: string
  ped_usuarioEmail :: string
  ped_itens :: "linha list"
  ped_total :: real
  ped_data :: string
  ped_status :: string
  ped_endereco :: string
  ped_cidade :: string

record config_pagamento =
  provedor :: string
  stripePublicKey :: string
  mercadoPagoPublicKey :: string

text \<open>
  \<open>appState.usuarioLogado\<close> is \<open>null\<close> or an object. After a login it is the very
  object that sits in \<open>appState.usuarios\<close> (at an index; the list only grows) or
  \<open>appState.admin\<close>; after the state was read back from its JSON text it is an object
  of its own.
\<close>

datatype sessao = Anonimo | RefUsuario nat | RefAdmin | Copia usuario

record appState =
  usuarioLogado :: sessao
  carrinho :: "linha list"
  produtores :: "produtor list"
  usuarios :: "usuario list"
  pedidos :: "pedido list"
  admin :: usuario
  configPagamento :: config_pagamento

text \<open>
  The shop: \<open>appState\<close> and the two texts in \<open>localStorage\<close>, under \<open>STORAGE_KEY\<close>
  and \<open>PAGAMENTO_CONFIG_KEY\<close> (\<open>None\<close>: no such key).
\<close>

record loja =
  app :: appState
  ls_dados :: "string option"
  ls_config :: "string option"

text \<open>
  A JSON document as \<open>JSON.parse\<close> returns it. The runtime is a parameter:
  \<open>JSON_parse\<close> gives \<open>None\<close> where \<open>JSON.parse\<close> throws, \<open>decodificar\<close> reads a
  document that has the three arrays as the state it denotes, and \<open>parse_config\<close> reads
  the payment configuration.
\<close>

datatype json =
    JNull | JBool bool | JNum real | JStr string | JArr "json list" | JObj "(string \<times> json) list"

record loja_env =
  JSON_stringify :: "appState \<Rightarrow> string"
  JSON_parse :: "string \<Rightarrow> json option"
  decodificar :: "json \<Rightarrow> appState"
  stringify_config :: "config_pagamento \<Rightarrow> string"
  parse_config :: "string \<Rightarrow> config_pagamento option"

text \<open>\<open>parsed.campo && Array.isArray(parsed.campo)\<close>; a later duplicate key wins.\<close>

definition ehArray :: "json \<Rightarrow> string \<Rightarrow> bool" where
  "ehArray parsed campo =
     (case parsed of
        JObj kvs \<Rightarrow> (case map_of (rev kvs) campo of Some (JArr _) \<Rightarrow> True | _ \<Rightarrow> False)
      | _ \<Rightarrow> False)"

definition salvarDados :: "loja_env \<Rightarrow> loja \<Rightarrow> loja" where
  "salvarDados env w = w\<lparr>ls_dados := Some (JSON_stringify env (app w))\<rparr>"

definition configPadrao :: config_pagamento where
  "configPadrao = \<lparr>provedor = ''stripe'', stripePublicKey = ''pk_demo_12345'',
                   mercadoPagoPublicKey = ''APP_USER_ID_DEMO''\<rparr>"

definition produtoresDemo :: "produtor list" where
  "produtoresDemo =
     [\<lparr>prod_id = ''produtor_001'', prod_nome = ''Fazenda Org'' @ [CHR 0xE2] @ ''nica Verde'',
       prod_email = ''contato@fazendaverde.com'',
       listaDeItens =
         [\<lparr>item_id = ''item_001'', item_nome = ''Ma'' @ [CHR 0xE7, CHR 0xE3] @ '' Org'' @ [CHR 0xE2] @ ''nica'',
           item_descricao = ''Ma'' @ [CHR 0xE7, CHR 0xE3] @ '' vermelha fresca, colheita do m'' @ [CHR 0xEA] @ ''s'',
           item_preco = 12.50, item_produtorId = ''produtor_001'', item_disponivel = True\<rparr>,
          \<lparr>item_id = ''item_002'', item_nome = ''Cenoura Org'' @ [CHR 0xE2] @ ''nica'',
           item_descricao = ''Cenoura doce e crocante'',
           item_preco = 8.00, item_produtorId = ''produtor_001'', item_disponivel = True\<rparr>]\<rparr>,
      \<lparr>prod_id = ''produtor_002'', prod_nome = ''Latic'' @ [CHR 0xED] @ ''nios Naturais'',
       prod_email = ''vendas@lacticinionaturais.com'',
       listaDeItens =
         [\<lparr>item_id = ''item_003'', item_nome = ''Queijo Meia Cura'',
           item_descricao = ''Queijo artesanal, 500g'',
           item_preco = 35.00, item_produtorId = ''produtor_002'', item_disponivel = True\<rparr>,
          \<lparr>item_id = ''item_004'', item_nome = ''Leite Integral'',
           item_descricao = ''Leite fresco, 1 litro'',
           item_preco = 6.50, item_produtorId = ''produtor_002'', item_disponivel = True\<rparr>]\<rparr>,
      \<lparr>prod_id = ''produtor_003'', prod_nome = ''Caf'' @ [CHR 0xE9] @ '' Artesanal'',
       prod_email = ''cafe@artesanal.com'',
       listaDeItens =
         [\<lparr>item_id = ''item_005'', item_nome = ''Caf'' @ [CHR 0xE9] @ '' Expresso'',
           item_descricao = ''Caf'' @ [CHR 0xE9] @ '' 100% ar'' @ [CHR 0xE1] @ ''bica, 250g'',
           item_preco = 28.00, item_produtorId = ''produtor_003'', item_disponivel = True\<rparr>]\<rparr>]"

definition usuariosDemo :: "usuario list" where
  "usuariosDemo =
     [\<lparr>usr_id = ''user_001'', usr_nome = ''Jo'' @ [CHR 0xE3] @ ''o Silva'', usr_email = ''joao@example.com'',
       senhaHash = hashSenhaSimples ''senha123'', role = ''user'', usr_pedidos = Some []\<rparr>,
      \<lparr>usr_id = ''user_002'', usr_nome = ''Maria Santos'', usr_email = ''maria@example.com'',
       senhaHash = hashSenhaSimples ''senha456'', role = ''user'', usr_pedidos = Some []\<rparr>]"

definition adminPadrao :: usuario where
  "adminPadrao =
     \<lparr>usr_id = ''admin_001'', usr_nome = ''Administrador'', usr_email = ''admin@loja.com'',
      senhaHash = hashSenhaSimples ''admin123'', role = ''admin'', usr_pedidos = None\<rparr>"

definition inicializarDadosParaao :: "loja_env \<Rightarrow> loja \<Rightarrow> loja" where
  "inicializarDadosParaao env w =
     salvarDados env
       (w\<lparr>app := \<lparr>usuarioLogado = Anonimo, carrinho = [], produtores = produtoresDemo,
                  usuarios = usuariosDemo, pedidos = [], admin = adminPadrao,
                  configPagamento = configPadrao\<rparr>\<rparr>)"

text \<open>
  \<open>carregarDados\<close>: everything is inside \<open>try\<close>. A missing or empty text, a text that
  does not parse (\<open>SyntaxError\<close>, caught), the document \<open>null\<close> (\<open>TypeError\<close> on
  \<open>parsed.usuarios\<close>, caught) and a document without the three arrays all end in
  \<open>inicializarDadosParaao\<close>; a document with the three arrays becomes the state.
\<close>

definition carregarDados :: "loja_env \<Rightarrow> loja \<Rightarrow> loja" where
  "carregarDados env w =
     (case ls_dados w of
        None \<Rightarrow> inicializarDadosParaao env w
      | Some txt \<Rightarrow>
          if txt = [] then inicializarDadosParaao env w
          else
            (case JSON_parse env txt of
               None \<Rightarrow> inicializarDadosParaao env w
             | Some parsed \<Rightarrow>
                 if parsed = JNull then inicializarDadosParaao env w
                 else if ehArray parsed ''usuarios'' \<and> ehArray parsed ''produtores''
                         \<and> ehArray parsed ''pedidos''
                 then w\<lparr>app := decodificar env parsed\<rparr>
                 else inicializarDadosParaao env w))"

text \<open>
  \<open>carregarConfigPagamento\<close>, also inside \<open>try\<close>: the stored configuration when there
  is one and it parses, the default one when there is none, and no change when the text
  does not parse.
\<close>

definition carregarConfigPagamento :: "loja_env \<Rightarrow> loja \<Rightarrow> loja" where
  "carregarConfigPagamento env w =
     (case ls_config w of
        None \<Rightarrow> w\<lparr>app := (app w)\<lparr>configPagamento := configPadrao\<rparr>\<rparr>
      | Some txt \<Rightarrow>
          if txt = [] then w\<lparr>app := (app w)\<lparr>configPagamento := configPadrao\<rparr>\<rparr>
          else
            (case parse_config env txt of
               None \<Rightarrow> w
             | Some c \<Rightarrow> w\<lparr>app := (app w)\<lparr>configPagamento := c\<rparr>\<rparr>))"

section \<open>Shop: session, cart and checkout\<close>

definition usuarioEstaLogado :: "appState \<Rightarrow> bool" where
  "usuarioEstaLogado a = (usuarioLogado a \<noteq> Anonimo)"

text \<open>The object \<open>appState.usuarioLogado\<close> stands for, when there is one.\<close>

definition logado :: "appState \<Rightarrow> usuario option" where
  "logado a =
     (case usuarioLogado a of
        Anonimo \<Rightarrow> None
      | RefUsuario i \<Rightarrow> if i < length (usuarios a) then Some (usuarios a ! i) else None
      | RefAdmin \<Rightarrow> Some (admin a)
      | Copia u \<Rightarrow> Some u)"

definition usuarioAtualEhAdmin :: "appState \<Rightarrow> bool" where
  "usuarioAtualEhAdmin a = (case logado a of None \<Rightarrow> False | Some u \<Rightarrow> role u = ''admin'')"

text \<open>
  \<open>atualizarUI\<close> repaints the page; the one thing it does to the state is to empty the
  cart when nobody is logged in.
\<close>

definition atualizarUI :: "loja \<Rightarrow> loja" where
  "atualizarUI w =
     (if usuarioEstaLogado (app w) then w else w\<lparr>app := (app w)\<lparr>carrinho := []\<rparr>\<rparr>)"

text \<open>The index of the first element \<open>find\<close> would return.\<close>

fun indiceDe :: "('a \<Rightarrow> bool) \<Rightarrow> 'a list \<Rightarrow> nat option" where
  "indiceDe P [] = None"
| "indiceDe P (x # xs) = (if P x then Some 0 else map_option Suc (indiceDe P xs))"

definition handleLoginForm :: "loja_env \<Rightarrow> string \<Rightarrow> string \<Rightarrow> loja \<Rightarrow> erro option \<times> loja" where
  "handleLoginForm env loginEmail loginPassword w =
     (let email = sanitizar loginEmail in
      if \<not> validarEmail email then (Some (ValidationError EmailInvalido), w)
      else
        (case indiceDe (\<lambda>u. usr_email u = email) (usuarios (app w)) of
           None \<Rightarrow> (Some (NotFoundError UsuarioNaoEncontrado), w)
         | Some i \<Rightarrow>
             if senhaHash (usuarios (app w) ! i) \<noteq> hashSenhaSimples loginPassword
             then (Some (AuthError SenhaIncorreta), w)
             else (None, atualizarUI (salvarDados env (w\<lparr>app := (app w)\<lparr>usuarioLogado := RefUsuario i\<rparr>\<rparr>)))))"

record registro_form =
  registroNome :: string
  registroEmail :: string
  registroSenha :: string
  registroConfirm :: string

text \<open>\<open>handleRegistroForm\<close>; \<open>t\<close> is \<open>Date.now()\<close>.\<close>

definition handleRegistroForm :: "loja_env \<Rightarrow> nat \<Rightarrow> registro_form \<Rightarrow> loja \<Rightarrow> erro option \<times> loja" where
  "handleRegistroForm env t f w =
     (let nome = sanitizar (registroNome f); email = sanitizar (registroEmail f) in
      if nome = [] \<or> length nome < 3 then (Some (ValidationError NomeMinimo3), w)
      else if \<not> validarEmail email then (Some (ValidationError EmailInvalido), w)
      else if \<not> validarSenha (registroSenha f) then (Some (ValidationError SenhaMinimo6), w)
      else if registroSenha f \<noteq> registroConfirm f then (Some (ValidationError SenhasNaoCoincidem), w)
      else if list_ex (\<lambda>u. usr_email u = email) (usuarios (app w))
      then (Some (ValidationError EmailJaRegistrado), w)
      else
        (let novoUsuario = \<lparr>usr_id = ''user_'' @ String_nat t, usr_nome = nome, usr_email = email,
                             senhaHash = hashSenhaSimples (registroSenha f), role = ''user'',
                             usr_pedidos = Some []\<rparr>
         in (None, atualizarUI (salvarDados env
               (w\<lparr>app := (app w)\<lparr>usuarios := usuarios (app w) @ [novoUsuario],
                                  usuarioLogado := RefUsuario (length (usuarios (app w)))\<rparr>\<rparr>)))))"

definition handleLoginAdminForm :: "loja_env \<Rightarrow> string \<Rightarrow> string \<Rightarrow> loja \<Rightarrow> erro option \<times> loja" where
  "handleLoginAdminForm env loginAdminEmail loginAdminPassword w =
     (let email = sanitizar loginAdminEmail in
      if \<not> validarEmail email then (Some (ValidationError EmailInvalido), w)
      else if usr_email (admin (app w)) \<noteq> email then (Some (NotFoundError AdminNaoEncontrado), w)
      else if senhaHash (admin (app w)) \<noteq> hashSenhaSimples loginAdminPassword
      then (Some (AuthError SenhaIncorreta), w)
      else (None, atualizarUI (salvarDados env (w\<lparr>app := (app w)\<lparr>usuarioLogado := RefAdmin\<rparr>\<rparr>))))"

definition handleLogout :: "loja_env \<Rightarrow> loja \<Rightarrow> loja" where
  "handleLogout env w =
     atualizarUI (salvarDados env (w\<lparr>app := (app w)\<lparr>usuarioLogado := Anonimo, carrinho := []\<rparr>\<rparr>))"

text \<open>The line of the cart for an item: \<open>{ ...item, produtorNome: produtor.nome }\<close>.\<close>

definition linhaDe :: "produtor \<Rightarrow> item \<Rightarrow> linha" where
  "linhaDe p i =
     \<lparr>linha_id = item_id i, linha_nome = item_nome i, linha_descricao = item_descricao i,
      linha_preco = item_preco i, linha_produtorId = item_produtorId i,
      linha_disponivel = item_disponivel i, linha_produtorNome = prod_nome p\<rparr>"

text \<open>
  The search of \<open>adicionarAoCarrinho\<close>: producer after producer, the first item of the
  producer with that id, taken when it is available.
\<close>

fun buscarItem :: "string \<Rightarrow> produtor list \<Rightarrow> linha option" where
  "buscarItem itemId [] = None"
| "buscarItem itemId (p # ps) =
     (case find (\<lambda>i. item_id i = itemId) (listaDeItens p) of
        Some i \<Rightarrow> if item_disponivel i then Some (linhaDe p i) else buscarItem itemId ps
      | None \<Rightarrow> buscarItem itemId ps)"

definition adicionarAoCarrinho :: "string \<Rightarrow> loja \<Rightarrow> erro option \<times> loja" where
  "adicionarAoCarrinho itemId w =
     (if \<not> usuarioEstaLogado (app w) then (Some (AuthError PrecisaEstarLogado), w)
      else
        (case buscarItem itemId (produtores (app w)) of
           None \<Rightarrow> (Some (NotFoundError ItemNaoDisponivel), w)
         | Some itemEncontrado \<Rightarrow>
             if list_ex (\<lambda>c. linha_id c = itemId) (carrinho (app w))
             then (Some (DuplicateError ItemJaNoCarrinho), w)
             else (None, w\<lparr>app := (app w)\<lparr>carrinho := carrinho (app w) @ [itemEncontrado]\<rparr>\<rparr>)))"

definition removerDoCarrinho :: "string \<Rightarrow> loja \<Rightarrow> loja" where
  "removerDoCarrinho itemId w =
     w\<lparr>app := (app w)\<lparr>carrinho := filter (\<lambda>l. linha_id l \<noteq> itemId) (carrinho (app w))\<rparr>\<rparr>"

definition calcularTotalCarrinho :: "appState \<Rightarrow> real" where
  "calcularTotalCarrinho a = foldl (\<lambda>total l. total + linha_preco l) 0 (carrinho a)"

text \<open>
  The fields of the checkout form and the payload \<open>handleCheckoutForm\<close> makes of them:
  six texts go through \<open>sanitizar\<close> and the card number keeps only its digits.
\<close>

record checkout_form =
  checkoutNome :: string
  checkoutEmail :: string
  checkoutTelefone :: string
  checkoutEndereco :: string
  checkoutCidade :: string
  checkoutCep :: string
  checkoutCartao :: string
  checkoutValidade :: string
  checkoutCvv :: string

definition dadosDoFormulario :: "checkout_form \<Rightarrow> dados" where
  "dadosDoFormulario f =
     \<lparr>d_nome = sanitizar (checkoutNome f), d_email = sanitizar (checkoutEmail f),
      d_telefone = sanitizar (checkoutTelefone f), d_endereco = sanitizar (checkoutEndereco f),
      d_cidade = sanitizar (checkoutCidade f), d_cep = sanitizar (checkoutCep f),
      d_cartao = filter ehDigito (checkoutCartao f), d_validade = checkoutValidade f,
      d_cvv = checkoutCvv f\<rparr>"

text \<open>
  \<open>handleCheckoutForm\<close> validates and, when the payload is valid, calls
  \<open>processarPagamento\<close>, which only arms a timer: \<open>Inr dados\<close> is the armed timer. The
  state is not touched.
\<close>

definition handleCheckoutForm :: "checkout_form \<Rightarrow> erro + dados" where
  "handleCheckoutForm f =
     (let d = dadosDoFormulario f in
      case validarDadosCompra d of Inl e \<Rightarrow> Inl e | Inr _ \<Rightarrow> Inr d)"

text \<open>The object \<open>find\<close> returns is changed in place: the first element that satisfies \<open>P\<close>.\<close>

fun alterarPrimeiro :: "('a \<Rightarrow> bool) \<Rightarrow> ('a \<Rightarrow> 'a) \<Rightarrow> 'a list \<Rightarrow> 'a list" where
  "alterarPrimeiro P f [] = []"
| "alterarPrimeiro P f (x # xs) = (if P x then f x # xs else x # alterarPrimeiro P f xs)"

text \<open>
  One round of the stock loop of \<open>finalizarCompraComSucesso\<close>: the first producer whose
  id is the line's \<open>produtorId\<close>, in it the first item with the line's id, and that
  item's \<open>disponivel\<close> set to \<open>false\<close>; nothing when either search finds nothing.
\<close>

definition baixarEstoque :: "linha \<Rightarrow> produtor list \<Rightarrow> produtor list" where
  "baixarEstoque l ps =
     alterarPrimeiro (\<lambda>p. prod_id p = linha_produtorId l)
       (\<lambda>p. p\<lparr>listaDeItens :=
                alterarPrimeiro (\<lambda>i. item_id i = linha_id l)
                  (\<lambda>i. i\<lparr>item_disponivel := False\<rparr>) (listaDeItens p)\<rparr>)
       ps"

text \<open>
  \<open>appState.usuarioLogado.pedidos.push(novoPedido.id)\<close>, on the object the session
  stands for.
\<close>

definition anotarPedido :: "string \<Rightarrow> usuario \<Rightarrow> usuario" where
  "anotarPedido pid u =
     u\<lparr>usr_pedidos := Some ((case usr_pedidos u of None \<Rightarrow> [] | Some ps \<Rightarrow> ps) @ [pid])\<rparr>"

definition anotarPedidoLogado :: "string \<Rightarrow> appState \<Rightarrow> appState" where
  "anotarPedidoLogado pid a =
     (case usuarioLogado a of
        Anonimo \<Rightarrow> a
      | RefUsuario i \<Rightarrow> a\<lparr>usuarios := (usuarios a)[i := anotarPedido pid (usuarios a ! i)]\<rparr>
      | RefAdmin \<Rightarrow> a\<lparr>admin := anotarPedido pid (admin a)\<rparr>
      | Copia u \<Rightarrow> a\<lparr>usuarioLogado := Copia (anotarPedido pid u)\<rparr>)"

text \<open>
  \<open>finalizarCompraComSucesso\<close>. With nobody logged in, \<open>appState.usuarioLogado.id\<close>
  throws before anything is changed. \<open>t\<close> is \<open>Date.now()\<close>, \<open>agora\<close> is
  \<open>new Date().toISOString()\<close>.
\<close>

definition finalizarCompraComSucesso :: "loja_env \<Rightarrow> nat \<Rightarrow> string \<Rightarrow> dados \<Rightarrow> loja \<Rightarrow> erro option \<times> loja" where
  "finalizarCompraComSucesso env t agora d w =
     (case logado (app w) of
        None \<Rightarrow> (Some TypeError, w)
      | Some u \<Rightarrow>
          (let a = app w;
               novoPedido = \<lparr>ped_id = ''pedido_'' @ String_nat t, ped_usuarioId = usr_id u,
                             ped_usuarioNome = d_nome d, ped_usuarioEmail = d_email d,
                             ped_itens = carrinho a, ped_total = calcularTotalCarrinho a,
                             ped_data = agora, ped_status = ''confirmado'',
                             ped_endereco = d_endereco d, ped_cidade = d_cidade d\<rparr>;
               a1 = a\<lparr>produtores := foldl (\<lambda>ps l. baixarEstoque l ps) (produtores a) (ped_itens novoPedido)\<rparr>;
               a2 = a1\<lparr>pedidos := pedidos a1 @ [novoPedido]\<rparr>;
               a3 = (if role u = ''user'' then anotarPedidoLogado (ped_id novoPedido) a2 else a2);
               a4 = a3\<lparr>carrinho := []\<rparr>
           in (None, salvarDados env (w\<lparr>app := a4\<rparr>))))"

text \<open>
  The timer of \<open>processarPagamento\<close>: \<open>sucesso\<close> is the outcome
  \<open>Math.random() < 0.85\<close>. The two \<open>criarPagamento\<close> functions only log and their
  result is dropped.
\<close>

definition processarPagamento :: "loja_env \<Rightarrow> bool \<Rightarrow> nat \<Rightarrow> string \<Rightarrow> dados \<Rightarrow> loja \<Rightarrow> erro option \<times> loja" where
  "processarPagamento env sucesso t agora d w =
     (if sucesso then finalizarCompraComSucesso env t agora d w
      else (Some PagamentoRecusado, w))"

text \<open>
  A checkout with nothing in between: the form is submitted and the timer fires before
  any other handler runs.
\<close>

definition checkout :: "loja_env \<Rightarrow> bool \<Rightarrow> nat \<Rightarrow> string \<Rightarrow> checkout_form \<Rightarrow> loja \<Rightarrow> erro option \<times> loja" where
  "checkout env sucesso t agora f w =
     (case handleCheckoutForm f of
        Inl e \<Rightarrow> (Some e, w)
      | Inr d \<Rightarrow> processarPagamento env sucesso t agora d w)"

section \<open>Shop: producers, items and the payment configuration\<close>

definition handleNovoProductorForm :: "loja_env \<Rightarrow> nat \<Rightarrow> string \<Rightarrow> string \<Rightarrow> loja \<Rightarrow> erro option \<times> loja" where
  "handleNovoProductorForm env t novoProductorNome novoProductorEmail w =
     (if \<not> usuarioAtualEhAdmin (app w) then (Some (AuthError AcessoNegado), w)
      else
        (let nome = sanitizar novoProductorNome; email = sanitizar novoProductorEmail in
         if nome = [] \<or> length nome < 3 then (Some (ValidationError NomeInvalido), w)
         else if \<not> validarEmail email then (Some (ValidationError EmailInvalido), w)
         else if list_ex (\<lambda>p. prod_email p = email) (produtores (app w))
         then (Some (DuplicateError EmailJaCadastrado), w)
         else
           (let novoProdutor = \<lparr>prod_id = ''produtor_'' @ String_nat t, prod_nome = nome,
                                 prod_email = email, listaDeItens = []\<rparr>
            in (None, salvarDados env
                  (w\<lparr>app := (app w)\<lparr>produtores := produtores (app w) @ [novoProdutor]\<rparr>\<rparr>)))))"

text \<open>
  \<open>handleNovoItemForm\<close>; \<open>preco\<close> is the number \<open>parseFloat\<close> reads in the price
  field.
\<close>

definition handleNovoItemForm :: "loja_env \<Rightarrow> nat \<Rightarrow> string \<Rightarrow> string \<Rightarrow> string \<Rightarrow> real \<Rightarrow> loja \<Rightarrow> erro option \<times> loja" where
  "handleNovoItemForm env t produtorId novoItemNome novoItemDescricao preco w =
     (if \<not> usuarioAtualEhAdmin (app w) then (Some (AuthError AcessoNegado), w)
      else
        (let nome = sanitizar novoItemNome; descricao = sanitizar novoItemDescricao in
         if nome = [] \<or> descricao = [] then (Some (ValidationError PreenchaTodosOsCampos), w)
         else if preco \<le> 0 then (Some (ValidationError PrecoMaiorQueZero), w)
         else if \<not> list_ex (\<lambda>p. prod_id p = produtorId) (produtores (app w))
         then (Some (NotFoundError ProdutorNaoEncontrado), w)
         else
           (let novoItem = \<lparr>item_id = ''item_'' @ String_nat t, item_nome = nome,
                             item_descricao = descricao, item_preco = preco,
                             item_produtorId = produtorId, item_disponivel = True\<rparr>
            in (None, salvarDados env
                  (w\<lparr>app := (app w)\<lparr>produtores :=
                        alterarPrimeiro (\<lambda>p. prod_id p = produtorId)
                          (\<lambda>p. p\<lparr>listaDeItens := listaDeItens p @ [novoItem]\<rparr>)
                          (produtores (app w))\<rparr>\<rparr>)))))"

text \<open>\<open>removerProdutor\<close>; \<open>confirma\<close> is the answer to \<open>confirm\<close>.\<close>

definition removerProdutor :: "loja_env \<Rightarrow> string \<Rightarrow> bool \<Rightarrow> loja \<Rightarrow> erro option \<times> loja" where
  "removerProdutor env produtorId confirma w =
     (if \<not> usuarioAtualEhAdmin (app w) then (Some (AuthError AcessoNegado), w)
      else if confirma then
        (None, salvarDados env
           (w\<lparr>app := (app w)\<lparr>produtores := filter (\<lambda>p. prod_id p \<noteq> produtorId) (produtores (app w))\<rparr>\<rparr>))
      else (None, w))"

definition removerItemProdutor :: "loja_env \<Rightarrow> string \<Rightarrow> string \<Rightarrow> loja \<Rightarrow> erro option \<times> loja" where
  "removerItemProdutor env produtorId itemId w =
     (if \<not> usuarioAtualEhAdmin (app w) then (Some (AuthError AcessoNegado), w)
      else if list_ex (\<lambda>p. prod_id p = produtorId) (produtores (app w)) then
        (None, salvarDados env
           (w\<lparr>app := (app w)\<lparr>produtores :=
                 alterarPrimeiro (\<lambda>p. prod_id p = produtorId)
                   (\<lambda>p. p\<lparr>listaDeItens := filter (\<lambda>i. item_id i \<noteq> itemId) (listaDeItens p)\<rparr>)
                   (produtores (app w))\<rparr>\<rparr>))
      else (None, w))"

text \<open>\<open>handleConfigPagamentoForm\<close>: an empty key keeps the key configured before.\<close>

definition handleConfigPagamentoForm :: "loja_env \<Rightarrow> string \<Rightarrow> string \<Rightarrow> string \<Rightarrow> loja \<Rightarrow> erro option \<times> loja" where
  "handleConfigPagamentoForm env provedorPagamento stripeKeyTxt mpKeyTxt w =
     (if \<not> usuarioAtualEhAdmin (app w) then (Some (AuthError AcessoNegado), w)
      else
        (let stripeKey = sanitizar stripeKeyTxt; mpKey = sanitizar mpKeyTxt in
         if provedorPagamento = [] then (Some (ValidationError SelecioneUmProvedor), w)
         else
           (let c = \<lparr>provedor = provedorPagamento,
                      stripePublicKey = (if stripeKey = [] then stripePublicKey (configPagamento (app w)) else stripeKey),
                      mercadoPagoPublicKey = (if mpKey = [] then mercadoPagoPublicKey (configPagamento (app w)) else mpKey)\<rparr>
            in (None, w\<lparr>app := (app w)\<lparr>configPagamento := c\<rparr>,
                         ls_config := Some (stringify_config env c)\<rparr>))))"

section \<open>Shop: the states the page can be in\<close>

text \<open>
  The page starts in the handler of \<open>DOMContentLoaded\<close>: \<open>carregarDados\<close>,
  \<open>carregarConfigPagamento\<close>, \<open>atualizarUI\<close>, whatever the two stored texts are. The
  \<open>appState\<close> before it is the literal of the source; its \<open>admin: null\<close> and
  \<open>configPagamento: {}\<close> are never read before \<open>carregarDados\<close> replaces the state,
  and stand here with the default values.
\<close>

definition lojaInicial :: "string option \<Rightarrow> string option \<Rightarrow> loja" where
  "lojaInicial dadosTxt configTxt =
     \<lparr>app = \<lparr>usuarioLogado = Anonimo, carrinho = [], produtores = [], usuarios = [],
              pedidos = [], admin = adminPadrao, configPagamento = configPadrao\<rparr>,
      ls_dados = dadosTxt, ls_config = configTxt\<rparr>"

definition aoCarregarPagina :: "loja_env \<Rightarrow> string option \<Rightarrow> string option \<Rightarrow> loja" where
  "aoCarregarPagina env dadosTxt configTxt =
     atualizarUI (carregarConfigPagamento env (carregarDados env (lojaInicial dadosTxt configTxt)))"

text \<open>
  After that, one handler runs at a time, to its end: each rule is one handler (or one
  timer) of the page with any input.
\<close>

inductive alcancavel :: "loja_env \<Rightarrow> loja \<Rightarrow> bool" for env :: loja_env where
  inicio: "alcancavel env (aoCarregarPagina env dadosTxt configTxt)"
| login: "alcancavel env w \<Longrightarrow> alcancavel env (snd (handleLoginForm env e p w))"
| registro: "alcancavel env w \<Longrightarrow> alcancavel env (snd (handleRegistroForm env t rf w))"
| loginAdmin: "alcancavel env w \<Longrightarrow> alcancavel env (snd (handleLoginAdminForm env e p w))"
| logout: "alcancavel env w \<Longrightarrow> alcancavel env (handleLogout env w)"
| adicionar: "alcancavel env w \<Longrightarrow> alcancavel env (snd (adicionarAoCarrinho itemId w))"
| remover: "alcancavel env w \<Longrightarrow> alcancavel env (removerDoCarrinho itemId w)"
| pagamento: "alcancavel env w \<Longrightarrow> alcancavel env (snd (processarPagamento env sucesso t agora d w))"
| ui: "alcancavel env w \<Longrightarrow> alcancavel env (atualizarUI w)"
| novoProdutor: "alcancavel env w \<Longrightarrow> alcancavel env (snd (handleNovoProductorForm env t n e w))"
| novoItem: "alcancavel env w \<Longrightarrow> alcancavel env (snd (handleNovoItemForm env t pid n ds pr w))"
| removeProdutor: "alcancavel env w \<Longrightarrow> alcancavel env (snd (removerProdutor env pid c w))"
| removeItem: "alcancavel env w \<Longrightarrow> alcancavel env (snd (removerItemProdutor env pid itemId w))"
| config: "alcancavel env w \<Longrightarrow> alcancavel env (snd (handleConfigPagamentoForm env pv k1 k2 w))"

text \<open>
  A store is well formed when no two producers share an id, no two items share an id and
  every item names the producer that lists it, as the demo data and the two forms that
  create producers and items (at different instants) make it.
\<close>

definition todosItens :: "produtor list \<Rightarrow> item list" where
  "todosItens ps = concat (map listaDeItens ps)"

definition estoqueBemFormado :: "produtor list \<Rightarrow> bool" where
  "estoqueBemFormado ps =
     (distinct (map prod_id ps) \<and> distinct (map item_id (todosItens ps))
      \<and> list_all (\<lambda>p. list_all (\<lambda>i. item_produtorId i = prod_id p) (listaDeItens p)) ps)"

text \<open>
  A line of the cart is backed by the store when the producer it names is there and lists
  an item with the line's id. \<open>indisponibilizar ks\<close> is a producer with the items
  whose id is in \<open>ks\<close> made unavailable and nothing else changed.
\<close>

definition linhaRespaldada :: "produtor list \<Rightarrow> linha \<Rightarrow> bool" where
  "linhaRespaldada ps l =
     list_ex (\<lambda>p. prod_id p = linha_produtorId l \<and> list_ex (\<lambda>i. item_id i = linha_id l) (listaDeItens p)) ps"

definition indisponibilizar :: "string set \<Rightarrow> produtor \<Rightarrow> produtor" where
  "indisponibilizar ks p =
     p\<lparr>listaDeItens := map (\<lambda>j. if item_id j \<in> ks then j\<lparr>item_disponivel := False\<rparr> else j) (listaDeItens p)\<rparr>"

text \<open>
  The checks of the checkout payload in the order the specification lists them: the nine
  required fields, the e-mail, the card number, the expiry and the CVV, each with whether
  the payload passes it and the message of its failure.
\<close>

definition verificacoes :: "dados \<Rightarrow> (bool \<times> mensagem) list" where
  "verificacoes d =
     map (\<lambda>(field, v). (\<not> campoVazio v, CampoObrigatorio field)) (requiredFields d)
     @ [(validarEmail (d_email d), EmailInvalido), (cartaoOk (d_cartao d), CartaoInvalido),
        (validadeOk (d_validade d), ValidadeInvalida), (cvvOk (d_cvv d), CvvInvalido)]"

section \<open>Examples used to instantiate the theorems\<close>

text \<open>
  A runtime for the examples. For the shop it writes the same text for every state and
  reads no text back; for the admin panel it reads back only the empty array.
\<close>

definition ambienteDemo :: loja_env where
  "ambienteDemo =
     \<lparr>JSON_stringify = (\<lambda>a. ''{}''), JSON_parse = (\<lambda>txt. None),
      decodificar = (\<lambda>j. app (lojaInicial None None)),
      stringify_config = (\<lambda>c. ''{}''), parse_config = (\<lambda>txt. None)\<rparr>"

definition painelDemo :: admin_env where
  "painelDemo =
     \<lparr>stringify_users = (\<lambda>us. ''[]''), stringify_plans = (\<lambda>ps. ''[]''),
      stringify_user = (\<lambda>u. ''{}''),
      parse_users = (\<lambda>txt. if txt = ''[]'' then Some [] else None),
      parse_plans = (\<lambda>txt. if txt = ''[]'' then Some [] else None),
      parse_user = (\<lambda>txt. if txt = ''null'' then Some None else None)\<rparr>"

text \<open>The admin panel with its default users and plans, nobody logged in, nothing stored.\<close>

definition estadoPadrao :: app_state where
  "estadoPadrao =
     \<lparr>users = getDefaultUsers ''2024-01-01T00:00:00.000Z'', plans = getDefaultPlans,
      currentUser = None, ls_users = None, ls_plans = None, ss_currentUser = None\<rparr>"

text \<open>A checkout form that passes the validation.\<close>

definition formularioDemo :: checkout_form where
  "formularioDemo =
     \<lparr>checkoutNome = ''Maria Santos'', checkoutEmail = ''maria@example.com'',
      checkoutTelefone = ''11 99999-0000'', checkoutEndereco = ''Rua das Flores, 10'',
      checkoutCidade = ''Campinas'', checkoutCep = ''13000-000'',
      checkoutCartao = ''4111 1111 1111 1111'', checkoutValidade = ''12/29'',
      checkoutCvv = ''123''\<rparr>"

text \<open>
  The shop on its demo data with the second demo user logged in and the two items of the
  first producer in the cart.
\<close>

definition lojaComCarrinho :: loja where
  "lojaComCarrinho =
     snd (adicionarAoCarrinho ''item_002''
       (snd (adicionarAoCarrinho ''item_001''
         (snd (handleLoginForm ambienteDemo ''maria@example.com'' ''senha456''
           (aoCarregarPagina ambienteDemo None None))))))"

section \<open>Rounding to a double\<close>

lemma expoenteDe_bounds: "e - int n \<le> expoenteDe n e x \<and> expoenteDe n e x \<le> e"
proof (induction n arbitrary: e)
  case 0
  then show ?case by simp
next
  case (Suc n)
  from Suc [of "e - 1"] show ?case by simp
qed

lemma expoenteDe_lower: "e - int n < expoenteDe n e x \<Longrightarrow> 2 powi (expoenteDe n e x) \<le> x"
proof (induction n arbitrary: e)
  case 0
  then show ?case by simp
next
  case (Suc n)
  show ?case
  proof (cases "x < 2 powi e")
    case True
    with Suc.prems have "e - 1 - int n < expoenteDe n (e - 1) x" by simp
    from Suc.IH [OF this] True show ?thesis by simp
  next
    case False
    then show ?thesis by simp
  qed
qed

lemma expoenteDe_upper: "expoenteDe n e x < e \<Longrightarrow> x < 2 powi (expoenteDe n e x + 1)"
proof (induction n arbitrary: e)
  case 0
  then show ?case by simp
next
  case (Suc n)
  show ?case
  proof (cases "x < 2 powi e")
    case True
    show ?thesis
    proof (cases "expoenteDe n (e - 1) x < e - 1")
      case l: True
      from Suc.IH [OF this] True show ?thesis by simp
    next
      case False
      with expoenteDe_bounds [of "e - 1" n x] have "expoenteDe n (e - 1) x = e - 1" by simp
      with True show ?thesis by simp
    qed
  next
    case False
    with Suc.prems show ?thesis by simp
  qed
qed

lemma expoenteDe_mono: "x \<le> y \<Longrightarrow> expoenteDe n e x \<le> expoenteDe n e y"
proof (induction n arbitrary: e)
  case 0
  then show ?case by simp
next
  case (Suc n)
  show ?case
  proof (cases "y < 2 powi e")
    case True
    with Suc.prems have "x < 2 powi e" by simp
    with True Suc show ?thesis by simp
  next
    case False
    have "expoenteDe (Suc n) e x \<le> e" using expoenteDe_bounds by blast
    with False show ?thesis by simp
  qed
qed

lemma expoenteDe_eq:
  "2 powi k \<le> x \<Longrightarrow> x < 2 powi (k + 1) \<Longrightarrow> k \<le> e \<Longrightarrow> e - int n \<le> k \<Longrightarrow> expoenteDe n e x = k"
proof (induction n arbitrary: e)
  case 0
  then show ?case by simp
next
  case (Suc n)
  show ?case
  proof (cases "x < 2 powi e")
    case True
    with Suc.prems(1) have "(2::real) powi k < 2 powi e" by simp
    then have "k < e"
      by (metis linorder_not_less one_le_numeral power_int_increasing)
    with Suc True show ?thesis by simp
  next
    case False
    with Suc.prems(2) have "(2::real) powi e < 2 powi (k + 1)" by simp
    then have "e < k + 1"
      by (metis linorder_not_less one_le_numeral power_int_increasing)
    with Suc.prems(3) False show ?thesis by simp
  qed
qed

lemma expoente_eq: "2 powi k \<le> \<bar>x\<bar> \<Longrightarrow> \<bar>x\<bar> < 2 powi (k + 1) \<Longrightarrow> - 1022 \<le> k \<Longrightarrow> k \<le> 1023 \<Longrightarrow> expoente x = k"
  unfolding expoente_def by (rule expoenteDe_eq) simp_all

lemma expoente_range: "- 1022 \<le> expoente x \<and> expoente x \<le> 1023"
  using expoenteDe_bounds [of 1023 2045 "\<bar>x\<bar>"] by (simp add: expoente_def)

lemma expoente_lower: "- 1022 < expoente x \<Longrightarrow> 2 powi (expoente x) \<le> \<bar>x\<bar>"
  using expoenteDe_lower [of 1023 2045 "\<bar>x\<bar>"] by (simp add: expoente_def)

lemma expoente_upper: "expoente x < 1023 \<Longrightarrow> \<bar>x\<bar> < 2 powi (expoente x + 1)"
  using expoenteDe_upper [of 2045 1023 "\<bar>x\<bar>"] by (simp add: expoente_def)

lemma expoente_mono: "\<bar>x\<bar> \<le> \<bar>y\<bar> \<Longrightarrow> expoente x \<le> expoente y"
  unfolding expoente_def by (rule expoenteDe_mono)

lemma ulp_pos: "0 < ulp x"
  by (simp add: ulp_def)

lemma arredondarPar_of_int [simp]: "arredondarPar (of_int k) = k"
  by (simp add: arredondarPar_def)

lemma arredondarPar_numeral [simp]: "arredondarPar (numeral k) = numeral k"
  using arredondarPar_of_int [of "numeral k"] by simp

lemma arredondarPar_0 [simp]: "arredondarPar 0 = 0"
  using arredondarPar_of_int [of 0] by simp

lemma arredondarPar_bounds: "\<lfloor>y\<rfloor> \<le> arredondarPar y \<and> arredondarPar y \<le> \<lfloor>y\<rfloor> + 1"
  by (simp add: arredondarPar_def Let_def)

lemma arredondarPar_mono: "y \<le> z \<Longrightarrow> arredondarPar y \<le> arredondarPar z"
proof -
  assume le: "y \<le> z"
  then have f: "\<lfloor>y\<rfloor> \<le> \<lfloor>z\<rfloor>" by (rule floor_mono)
  show ?thesis
  proof (cases "\<lfloor>y\<rfloor> = \<lfloor>z\<rfloor>")
    case True
    with le show ?thesis by (auto simp: arredondarPar_def Let_def)
  next
    case False
    with f have "\<lfloor>y\<rfloor> + 1 \<le> \<lfloor>z\<rfloor>" by simp
    with arredondarPar_bounds [of y] arredondarPar_bounds [of z] show ?thesis by linarith
  qed
qed


lemma ulp_abs [simp]: "ulp \<bar>x\<bar> = ulp x"
  by (simp add: ulp_def expoente_def)

lemma magnitude_upper:
  assumes "expoente x < 1023"
  shows "of_int (arredondarPar (\<bar>x\<bar> / ulp x)) * ulp x \<le> 2 powi (expoente x + 1)"
proof -
  let ?e = "expoente x"
  have u: "ulp x * 2 ^ 53 = 2 powi (?e + 1)"
  proof -
    have "(2::real) powi (?e - 52) * 2 powi 53 = 2 powi (?e - 52 + 53)"
      by (subst power_int_add) simp_all
    then show ?thesis by (simp add: ulp_def add.commute)
  qed
  have "\<bar>x\<bar> < ulp x * 2 ^ 53"
    using expoente_upper [OF assms] u by simp
  then have "\<bar>x\<bar> / ulp x \<le> 2 ^ 53"
    using ulp_pos [of x] by (simp add: pos_divide_le_eq mult.commute)
  then have "arredondarPar (\<bar>x\<bar> / ulp x) \<le> arredondarPar (of_int (2 ^ 53))"
    by (intro arredondarPar_mono) simp
  then have "arredondarPar (\<bar>x\<bar> / ulp x) \<le> 2 ^ 53" by simp
  then have "(of_int (arredondarPar (\<bar>x\<bar> / ulp x)) :: real) \<le> of_int (2 ^ 53)"
    by (simp only: of_int_le_iff)
  then have "of_int (arredondarPar (\<bar>x\<bar> / ulp x)) * ulp x \<le> 2 ^ 53 * ulp x"
    using ulp_pos [of x] by (intro mult_right_mono) simp_all
  with u show ?thesis by (simp add: mult.commute)
qed

lemma magnitude_lower:
  assumes "- 1022 < expoente x"
  shows "2 powi (expoente x) \<le> of_int (arredondarPar (\<bar>x\<bar> / ulp x)) * ulp x"
proof -
  let ?e = "expoente x"
  have u: "ulp x * 2 ^ 52 = 2 powi ?e"
  proof -
    have "(2::real) powi (?e - 52) * 2 powi 52 = 2 powi (?e - 52 + 52)"
      by (subst power_int_add) simp_all
    then show ?thesis by (simp add: ulp_def)
  qed
  have "ulp x * 2 ^ 52 \<le> \<bar>x\<bar>"
    using expoente_lower [OF assms] u by simp
  then have "2 ^ 52 \<le> \<bar>x\<bar> / ulp x"
    using ulp_pos [of x] by (simp add: pos_le_divide_eq mult.commute)
  then have "arredondarPar (of_int (2 ^ 52)) \<le> arredondarPar (\<bar>x\<bar> / ulp x)"
    by (intro arredondarPar_mono) simp
  then have "2 ^ 52 \<le> arredondarPar (\<bar>x\<bar> / ulp x)" by simp
  then have "(of_int (2 ^ 52) :: real) \<le> of_int (arredondarPar (\<bar>x\<bar> / ulp x))"
    by (simp only: of_int_le_iff)
  then have "2 ^ 52 * ulp x \<le> of_int (arredondarPar (\<bar>x\<bar> / ulp x)) * ulp x"
    using ulp_pos [of x] by (intro mult_right_mono) simp_all
  with u show ?thesis by (simp add: mult.commute)
qed

lemma magnitude_nonneg: "0 \<le> of_int (arredondarPar (\<bar>x\<bar> / ulp x)) * ulp x"
proof -
  have "0 \<le> \<bar>x\<bar> / ulp x" using ulp_pos [of x] by simp
  then have "arredondarPar (of_int 0) \<le> arredondarPar (\<bar>x\<bar> / ulp x)"
    by (intro arredondarPar_mono) simp
  then have "0 \<le> arredondarPar (\<bar>x\<bar> / ulp x)" by simp
  then show ?thesis using ulp_pos [of x] by simp
qed

lemma magnitude_mono:
  assumes "\<bar>x\<bar> \<le> \<bar>y\<bar>"
  shows "of_int (arredondarPar (\<bar>x\<bar> / ulp x)) * ulp x \<le> of_int (arredondarPar (\<bar>y\<bar> / ulp y)) * ulp y"
proof (cases "expoente x = expoente y")
  case True
  then have u: "ulp x = ulp y" by (simp add: ulp_def)
  have "\<bar>x\<bar> / ulp y \<le> \<bar>y\<bar> / ulp y"
    using assms ulp_pos [of y] by (simp add: divide_right_mono)
  then have "arredondarPar (\<bar>x\<bar> / ulp y) \<le> arredondarPar (\<bar>y\<bar> / ulp y)"
    by (rule arredondarPar_mono)
  then have "(of_int (arredondarPar (\<bar>x\<bar> / ulp y)) :: real) \<le> of_int (arredondarPar (\<bar>y\<bar> / ulp y))"
    by (simp only: of_int_le_iff)
  then show ?thesis
    unfolding u using ulp_pos [of y] by (intro mult_right_mono) simp_all
next
  case False
  with expoente_mono [OF assms] have lt: "expoente x < expoente y" by simp
  with expoente_range [of y] have "expoente x < 1023" by simp
  then have a: "of_int (arredondarPar (\<bar>x\<bar> / ulp x)) * ulp x \<le> 2 powi (expoente x + 1)"
    by (rule magnitude_upper)
  from lt expoente_range [of x] have "- 1022 < expoente y" by simp
  then have b: "2 powi (expoente y) \<le> of_int (arredondarPar (\<bar>y\<bar> / ulp y)) * ulp y"
    by (rule magnitude_lower)
  have "(2::real) powi (expoente x + 1) \<le> 2 powi (expoente y)"
    using lt by (intro power_int_increasing) simp_all
  with a b show ?thesis by linarith
qed

lemma emDouble_mono: "x \<le> y \<Longrightarrow> emDouble x \<le> emDouble y"
proof -
  assume le: "x \<le> y"
  consider "0 \<le> x" | "x < 0" "0 \<le> y" | "y < 0" using le by linarith
  then show ?thesis
  proof cases
    case 1
    with le have "\<bar>x\<bar> \<le> \<bar>y\<bar>" by simp
    from magnitude_mono [OF this] have m: "of_int (arredondarPar (\<bar>x\<bar> / ulp x)) * ulp x \<le> of_int (arredondarPar (\<bar>y\<bar> / ulp y)) * ulp y" .
    show ?thesis
    proof (cases "x = 0")
      case True
      then show ?thesis using magnitude_nonneg [of y] 1 le
        by (cases "y = 0") (simp_all add: emDouble_def sgn_if)
    next
      case False
      with 1 le m show ?thesis by (simp add: emDouble_def sgn_if)
    qed
  next
    case 2
    then show ?thesis
      using magnitude_nonneg [of x] magnitude_nonneg [of y]
      by (cases "y = 0") (simp_all add: emDouble_def sgn_if)
  next
    case 3
    with le have "\<bar>y\<bar> \<le> \<bar>x\<bar>" by simp
    from magnitude_mono [OF this] 3 le show ?thesis
      by (simp add: emDouble_def sgn_if)
  qed
qed

lemma emDouble_eval:
  assumes "2 powi k \<le> \<bar>x\<bar>" "\<bar>x\<bar> < 2 powi (k + 1)" "- 1022 \<le> k" "k \<le> 1023"
  shows "emDouble x = sgn x * (of_int (arredondarPar (\<bar>x\<bar> / 2 powi (k - 52))) * 2 powi (k - 52))"
  using expoente_eq [OF assms] by (simp add: emDouble_def ulp_def)

lemma emDouble_exact:
  assumes "\<bar>x\<bar> / ulp x = of_int m"
  shows "emDouble x = x"
proof -
  have "\<bar>x\<bar> = of_int m * ulp x" using assms ulp_pos [of x] by (simp add: field_simps)
  then have "of_int (arredondarPar (\<bar>x\<bar> / ulp x)) * ulp x = \<bar>x\<bar>" using assms by simp
  then show ?thesis by (simp add: emDouble_def sgn_if)
qed

lemma emDouble_of_int:
  assumes "\<bar>n\<bar> \<le> 2 ^ 53"
  shows "emDouble (of_int n) = of_int n"
proof (cases "n = 0")
  case True
  then show ?thesis by (simp add: emDouble_def)
next
  case False
  let ?x = "of_int n :: real"
  let ?e = "expoente ?x"
  have ge1: "1 \<le> \<bar>?x\<bar>" using False by (simp flip: of_int_abs add: )
  have le53: "\<bar>?x\<bar> \<le> 2 ^ 53"
    using assms by (metis of_int_abs of_int_le_iff of_int_numeral of_int_power)
  have e53: "?e \<le> 53"
  proof (rule ccontr)
    assume "\<not> ?e \<le> 53"
    then have g: "53 < ?e" by simp
    then have "2 powi ?e \<le> \<bar>?x\<bar>" by (intro expoente_lower) simp
    moreover have "(2::real) powi 53 < 2 powi ?e"
      using g by (intro power_int_strict_increasing) simp_all
    ultimately show False using le53 by simp
  qed
  have e0: "0 \<le> ?e"
  proof -
    have "\<bar>?x\<bar> < 2 powi (?e + 1)" using e53 by (intro expoente_upper) simp
    with ge1 have "(2::real) powi 0 < 2 powi (?e + 1)" by simp
    then have "0 < ?e + 1"
      by (metis linorder_not_less one_le_numeral power_int_increasing)
    then show ?thesis by simp
  qed
  show ?thesis
  proof (cases "?e \<le> 52")
    case True
    have "1 / ulp ?x = 2 powi (52 - ?e)"
      by (simp add: ulp_def power_int_diff)
    also have "\<dots> = 2 ^ nat (52 - ?e)"
      using True by (simp add: power_int_nonneg_exp)
    finally have i: "1 / ulp ?x = 2 ^ nat (52 - ?e)" .
    have "\<bar>?x\<bar> / ulp ?x = \<bar>?x\<bar> * (1 / ulp ?x)" by simp
    also have "\<dots> = of_int (\<bar>n\<bar> * 2 ^ nat (52 - ?e))"
      unfolding i by simp
    finally have "\<bar>?x\<bar> / ulp ?x = of_int (\<bar>n\<bar> * 2 ^ nat (52 - ?e))" .
    then show ?thesis by (rule emDouble_exact)
  next
    case False
    with e53 have e: "?e = 53" by simp
    then have "2 powi 53 \<le> \<bar>?x\<bar>" using expoente_lower [of ?x] by simp
    with le53 have x: "\<bar>?x\<bar> = 2 ^ 53" by simp
    have "ulp ?x = 2" using e by (simp add: ulp_def)
    with x have "\<bar>?x\<bar> / ulp ?x = of_int (2 ^ 52)" by simp
    then show ?thesis by (rule emDouble_exact)
  qed
qed

lemma vezes_mono: "a \<le> b \<Longrightarrow> 0 \<le> c \<Longrightarrow> vezes a c \<le> vezes b c"
  unfolding vezes_def by (intro emDouble_mono mult_right_mono)

lemma vezes_int:
  "\<bar>n * k\<bar> \<le> 2 ^ 53 \<Longrightarrow> vezes (of_int n) (of_int k) = of_int (n * k)"
  using emDouble_of_int [of "n * k"] by (simp add: vezes_def)

lemma exact_chain:
  fixes n :: int
  assumes "\<bar>n\<bar> * a * b * c \<le> 2 ^ 53" "1 \<le> a" "1 \<le> b" "1 \<le> c"
  shows "vezes (vezes (vezes (of_int n) (of_int a)) (of_int b)) (of_int c) = of_int (n * a * b * c)"
proof -
  have "\<bar>n\<bar> * a * 1 \<le> \<bar>n\<bar> * a * b"
    using assms(2,3) by (intro mult_left_mono) simp_all
  then have 1: "\<bar>n\<bar> * a \<le> \<bar>n\<bar> * a * b" by simp
  have "\<bar>n\<bar> * a * b * 1 \<le> \<bar>n\<bar> * a * b * c"
    using assms(2,3,4) by (intro mult_left_mono) simp_all
  then have 2: "\<bar>n\<bar> * a * b \<le> \<bar>n\<bar> * a * b * c" by simp
  have a: "\<bar>n * a\<bar> \<le> 2 ^ 53" using 1 2 assms by (simp add: abs_mult)
  have b: "\<bar>n * a * b\<bar> \<le> 2 ^ 53" using 2 assms by (simp add: abs_mult)
  have c: "\<bar>n * a * b * c\<bar> \<le> 2 ^ 53" using assms by (simp add: abs_mult)
  show ?thesis
    by (simp only: vezes_int [OF a] vezes_int [OF b] vezes_int [OF c])
qed

lemma exact_chain2:
  fixes n :: int
  assumes "\<bar>n\<bar> * a * b \<le> 2 ^ 53" "1 \<le> a" "1 \<le> b"
  shows "vezes (vezes (of_int n) (of_int a)) (of_int b) = of_int (n * a * b)"
proof -
  have "\<bar>n\<bar> * a * 1 \<le> \<bar>n\<bar> * a * b"
    using assms(2,3) by (intro mult_left_mono) simp_all
  then have a: "\<bar>n * a\<bar> \<le> 2 ^ 53" using assms by (simp add: abs_mult)
  have b: "\<bar>n * a * b\<bar> \<le> 2 ^ 53" using assms by (simp add: abs_mult)
  show ?thesis
    by (simp only: vezes_int [OF a] vezes_int [OF b])
qed

lemma vezes_200291705699511_30: "vezes 200291705699511 30 = 6008751170985330"
  using vezes_int [of 200291705699511 30] by simp

lemma vezes_6008751170985330_24: "vezes 6008751170985330 24 = 144210028103647936"
  unfolding vezes_def
  by (subst emDouble_eval [of 57]) (simp_all add: arredondarPar_def Let_def)

lemma vezes_144210028103647936_60: "vezes 144210028103647936 60 = 8652601686218875904"
  unfolding vezes_def
  by (subst emDouble_eval [of 62]) (simp_all add: arredondarPar_def Let_def)

lemma vezes_200291705699511_43200: "vezes 200291705699511 43200 = 8652601686218874880"
  unfolding vezes_def
  by (subst emDouble_eval [of 62]) (simp_all add: arredondarPar_def Let_def)

section \<open>Properties of the conversion\<close>




text \<open>
  Claim C4. A plan with a positive value converts to at least one minute, and for a fixed
  unit the conversion is monotonic non-decreasing in the value.
\<close>

theorem convertPlanToMinutes_lower_bound_mono:
  "(0 < plan_value p \<longrightarrow> 1 \<le> convertPlanToMinutes p)
   \<and> (v1 \<le> v2 \<longrightarrow>
        convertPlanToMinutes \<lparr>plan_id = i1, plan_name = n1, plan_value = v1, plan_unit = u\<rparr>
        \<le> convertPlanToMinutes \<lparr>plan_id = i2, plan_name = n2, plan_value = v2, plan_unit = u\<rparr>)"
proof -
  have m: "max 1 (round a) \<le> max (1::int) (round b)" if "a \<le> b" for a b :: real
    using round_mono [OF that] by simp
  have "1 \<le> convertPlanToMinutes p"
    by (simp add: convertPlanToMinutes_def Let_def)
  moreover have "convertPlanToMinutes \<lparr>plan_id = i1, plan_name = n1, plan_value = v1, plan_unit = u\<rparr>
        \<le> convertPlanToMinutes \<lparr>plan_id = i2, plan_name = n2, plan_value = v2, plan_unit = u\<rparr>"
    if le: "v1 \<le> v2"
    by (simp add: convertPlanToMinutes_def Let_def del: max.bounded_iff)
       (intro conjI impI m le vezes_mono; simp)
  ultimately show ?thesis by blast
qed

theorem convertPlanToMinutes_lower_bound_mono_witness:
  "(0::real) < 1 / 100
   \<and> convertPlanToMinutes \<lparr>plan_id = 1, plan_name = ''a'', plan_value = 1 / 100, plan_unit = ''hours''\<rparr> = 1
   \<and> (1 / 100 :: real) \<le> 3 / 2
   \<and> convertPlanToMinutes \<lparr>plan_id = 1, plan_name = ''a'', plan_value = 1 / 100, plan_unit = ''hours''\<rparr>
       \<le> convertPlanToMinutes \<lparr>plan_id = 2, plan_name = ''b'', plan_value = 3 / 2, plan_unit = ''hours''\<rparr>
   \<and> convertPlanToMinutes \<lparr>plan_id = 2, plan_name = ''b'', plan_value = 3 / 2, plan_unit = ''hours''\<rparr> = 90"
proof -
  have "vezes (1 / 100) 60 \<le> vezes (1 / 60) 60"
    by (rule vezes_mono) simp_all
  also have "vezes (1 / 60) 60 = 1"
    using emDouble_of_int [of 1] by (simp add: vezes_def)
  finally have "round (vezes (1 / 100) 60) \<le> round (1 :: real)"
    by (rule round_mono)
  then have a: "convertPlanToMinutes \<lparr>plan_id = 1, plan_name = ''a'', plan_value = 1 / 100, plan_unit = ''hours''\<rparr> = 1"
    by (simp add: convertPlanToMinutes_def Let_def)
  have "vezes (3 / 2) 60 = 90"
    using emDouble_of_int [of 90] by (simp add: vezes_def)
  then have b: "convertPlanToMinutes \<lparr>plan_id = 2, plan_name = ''b'', plan_value = 3 / 2, plan_unit = ''hours''\<rparr> = 90"
    by (simp add: convertPlanToMinutes_def Let_def)
  show ?thesis
    using convertPlanToMinutes_lower_bound_mono
            [of "\<lparr>plan_id = 1, plan_name = ''a'', plan_value = 1 / 100, plan_unit = ''hours''\<rparr>"
                "1 / 100" "3 / 2" 1 "''a''" "''hours''" 2 "''b''"]
          a b
    by simp
qed

section \<open>The stock after a purchase\<close>

lemma alterarPrimeiro_distinct:
  "distinct (map h xs) \<Longrightarrow>
   alterarPrimeiro (\<lambda>x. h x = k) f xs = map (\<lambda>x. if h x = k then f x else x) xs"
proof (induction xs)
  case Nil
  then show ?case by simp
next
  case (Cons x xs)
  show ?case
  proof (cases "h x = k")
    case True
    with Cons.prems have "\<forall>y\<in>set xs. h y \<noteq> k" by (auto simp: image_iff)
    then have "map (\<lambda>x. if h x = k then f x else x) xs = xs"
      by (induction xs) auto
    with True show ?thesis by simp
  next
    case False
    with Cons show ?thesis by simp
  qed
qed

lemma indisponibilizar_id [simp]: "prod_id (indisponibilizar ks p) = prod_id p"
  by (simp add: indisponibilizar_def)

lemma indisponibilizar_item_ids [simp]:
  "map item_id (listaDeItens (indisponibilizar ks p)) = map item_id (listaDeItens p)"
  by (simp add: indisponibilizar_def comp_def)

lemma indisponibilizar_untouched:
  "\<forall>j\<in>set (listaDeItens p). item_id j \<notin> ks \<Longrightarrow> indisponibilizar ks p = p"
proof -
  assume a: "\<forall>j\<in>set (listaDeItens p). item_id j \<notin> ks"
  then have "map (\<lambda>j. if item_id j \<in> ks then j\<lparr>item_disponivel := False\<rparr> else j) (listaDeItens p) = listaDeItens p"
    by (induction "listaDeItens p") (auto simp: map_idI)
  then show ?thesis by (simp add: indisponibilizar_def)
qed

lemma indisponibilizar_twice:
  "indisponibilizar ks (indisponibilizar js p) = indisponibilizar (js \<union> ks) p"
  by (auto simp: indisponibilizar_def)

lemma todosItens_Cons [simp]: "todosItens (p # ps) = listaDeItens p @ todosItens ps"
  by (simp add: todosItens_def)

lemma todosItens_Nil [simp]: "todosItens [] = []"
  by (simp add: todosItens_def)

lemma todosItens_ids_indisponibilizar [simp]:
  "map item_id (todosItens (map (indisponibilizar ks) ps)) = map item_id (todosItens ps)"
  by (induction ps) simp_all

lemma item_in_todosItens: "p \<in> set ps \<Longrightarrow> i \<in> set (listaDeItens p) \<Longrightarrow> i \<in> set (todosItens ps)"
  by (auto simp: todosItens_def)

lemma bem_formado_indisponibilizar:
  "estoqueBemFormado ps \<Longrightarrow> estoqueBemFormado (map (indisponibilizar ks) ps)"
  by (auto simp: estoqueBemFormado_def comp_def list_all_iff indisponibilizar_def)

lemma linhaRespaldada_iff:
  "linhaRespaldada ps l =
     (\<exists>p\<in>set ps. prod_id p = linha_produtorId l \<and> linha_id l \<in> set (map item_id (listaDeItens p)))"
  by (auto simp: linhaRespaldada_def list_ex_iff image_iff) metis+

lemma respaldada_indisponibilizar:
  "linhaRespaldada ps l \<Longrightarrow> linhaRespaldada (map (indisponibilizar ks) ps) l"
  unfolding linhaRespaldada_iff
proof -
  assume "\<exists>p\<in>set ps. prod_id p = linha_produtorId l \<and> linha_id l \<in> set (map item_id (listaDeItens p))"
  then obtain p where p: "p \<in> set ps" "prod_id p = linha_produtorId l"
      "linha_id l \<in> set (map item_id (listaDeItens p))" by blast
  have "indisponibilizar ks p \<in> set (map (indisponibilizar ks) ps)" using p(1) by simp
  moreover have "prod_id (indisponibilizar ks p) = linha_produtorId l" using p(2) by simp
  moreover have "linha_id l \<in> set (map item_id (listaDeItens (indisponibilizar ks p)))"
    using p(3) by (simp only: indisponibilizar_item_ids)
  ultimately show "\<exists>p\<in>set (map (indisponibilizar ks) ps).
       prod_id p = linha_produtorId l \<and> linha_id l \<in> set (map item_id (listaDeItens p))"
    by blast
qed

lemma baixarEstoque_bem_formado:
  assumes "distinct (map prod_id ps)" "distinct (map item_id (todosItens ps))"
    and "linhaRespaldada ps l"
  shows "baixarEstoque l ps = map (indisponibilizar {linha_id l}) ps"
  using assms
proof (induction ps)
  case Nil
  then show ?case by (simp add: baixarEstoque_def)
next
  case (Cons x xs)
  let ?k = "linha_id l"
  have dx: "distinct (map item_id (listaDeItens x))"
    and dxs: "distinct (map item_id (todosItens xs))"
    using Cons.prems(2) by auto
  have disj: "item_id i \<noteq> item_id j"
    if "i \<in> set (listaDeItens x)" "j \<in> set (todosItens xs)" for i j
  proof -
    have "set (map item_id (listaDeItens x)) \<inter> set (map item_id (todosItens xs)) = {}"
      using Cons.prems(2) by simp
    moreover have "item_id i \<in> set (map item_id (listaDeItens x))" using that(1) by simp
    moreover have "item_id j \<in> set (map item_id (todosItens xs))" using that(2) by simp
    ultimately show ?thesis by (metis disjoint_iff)
  qed
  show ?case
  proof (cases "prod_id x = linha_produtorId l")
    case True
    have "\<forall>p\<in>set xs. prod_id p \<noteq> linha_produtorId l"
      using Cons.prems(1) True by (auto simp: image_iff)
    with Cons.prems(3) True have inx: "?k \<in> item_id ` set (listaDeItens x)"
      by (auto simp: linhaRespaldada_iff)
    from inx obtain i0 where i0: "i0 \<in> set (listaDeItens x)" "item_id i0 = ?k" by auto
    have "\<forall>p\<in>set xs. \<forall>j\<in>set (listaDeItens p). item_id j \<notin> {?k}"
      by (metis disj i0 item_in_todosItens singletonD)
    then have rest: "map (indisponibilizar {?k}) xs = xs"
      by (simp add: indisponibilizar_untouched map_idI)
    have "alterarPrimeiro (\<lambda>i. item_id i = ?k) (\<lambda>i. i\<lparr>item_disponivel := False\<rparr>) (listaDeItens x)
          = map (\<lambda>j. if item_id j \<in> {?k} then j\<lparr>item_disponivel := False\<rparr> else j) (listaDeItens x)"
      using alterarPrimeiro_distinct [OF dx] by simp
    then have hx: "x\<lparr>listaDeItens := alterarPrimeiro (\<lambda>i. item_id i = ?k)
                      (\<lambda>i. i\<lparr>item_disponivel := False\<rparr>) (listaDeItens x)\<rparr> = indisponibilizar {?k} x"
      by (simp add: indisponibilizar_def)
    show ?thesis
      using True rest hx by (simp add: baixarEstoque_def)
  next
    case False
    with Cons.prems(3) have r: "linhaRespaldada xs l"
      by (auto simp: linhaRespaldada_def)
    then have "?k \<in> item_id ` set (todosItens xs)"
      by (auto simp: linhaRespaldada_iff todosItens_def)
    then obtain j0 where j0: "j0 \<in> set (todosItens xs)" "item_id j0 = ?k" by auto
    have "\<forall>j\<in>set (listaDeItens x). item_id j \<notin> {?k}"
      by (metis disj j0 singletonD)
    then have "indisponibilizar {?k} x = x" by (rule indisponibilizar_untouched)
    moreover have "baixarEstoque l xs = map (indisponibilizar {?k}) xs"
      using Cons.IH Cons.prems(1) dxs r by simp
    ultimately show ?thesis
      using False by (simp add: baixarEstoque_def)
  qed
qed

lemma foldl_baixarEstoque:
  "estoqueBemFormado ps \<Longrightarrow> list_all (linhaRespaldada ps) ls \<Longrightarrow>
   foldl (\<lambda>ps l. baixarEstoque l ps) ps ls = map (indisponibilizar (linha_id ` set ls)) ps"
proof (induction ls arbitrary: ps)
  case Nil
  then show ?case by (simp add: indisponibilizar_untouched map_idI)
next
  case (Cons l ls)
  let ?ps = "map (indisponibilizar {linha_id l}) ps"
  have b: "baixarEstoque l ps = ?ps"
    using Cons.prems by (intro baixarEstoque_bem_formado) (simp_all add: estoqueBemFormado_def)
  have wf: "estoqueBemFormado ?ps"
    using Cons.prems(1) by (rule bem_formado_indisponibilizar)
  have r: "list_all (linhaRespaldada ?ps) ls"
    using Cons.prems(2) by (simp add: list_all_iff respaldada_indisponibilizar)
  have "foldl (\<lambda>ps l. baixarEstoque l ps) ?ps ls = map (indisponibilizar (linha_id ` set ls)) ?ps"
    by (rule Cons.IH [OF wf r])
  then show ?case
    by (simp add: b indisponibilizar_twice comp_def)
qed


lemma anotarPedidoLogado_frame [simp]:
  "produtores (anotarPedidoLogado pid a) = produtores a"
  "pedidos (anotarPedidoLogado pid a) = pedidos a"
  "carrinho (anotarPedidoLogado pid a) = carrinho a"
  by (simp_all add: anotarPedidoLogado_def split: sessao.splits)

lemma linhaDe_respaldada:
  "estoqueBemFormado ps \<Longrightarrow> p \<in> set ps \<Longrightarrow> i \<in> set (listaDeItens p) \<Longrightarrow>
   linhaRespaldada ps (linhaDe p i)"
  unfolding linhaRespaldada_iff
  by (auto simp: estoqueBemFormado_def list_all_iff linhaDe_def)

lemma finalizar_geral:
  assumes wf: "estoqueBemFormado (produtores (app w))"
    and r: "list_all (linhaRespaldada (produtores (app w))) (carrinho (app w))"
    and u: "logado (app w) = Some u"
  shows "\<exists>w' ped. finalizarCompraComSucesso env t agora d w = (None, w')
      \<and> produtores (app w') = map (indisponibilizar (linha_id ` set (carrinho (app w)))) (produtores (app w))
      \<and> pedidos (app w') = pedidos (app w) @ [ped]
      \<and> ped_itens ped = carrinho (app w)
      \<and> ped_total ped = calcularTotalCarrinho (app w)
      \<and> carrinho (app w') = []"
  using foldl_baixarEstoque [OF wf r] u
  by (simp add: finalizarCompraComSucesso_def Let_def salvarDados_def)

lemma vendido_presente:
  "p \<in> set ps \<Longrightarrow> i \<in> set (listaDeItens p) \<Longrightarrow> item_id i \<in> ks \<Longrightarrow>
   i\<lparr>item_disponivel := False\<rparr> \<in> set (todosItens (map (indisponibilizar ks) ps))"
  by (force simp: todosItens_def indisponibilizar_def)

text \<open>
  What \<open>adicionarAoCarrinho\<close> appends to the cart is the line of an available item of
  the store with the id asked for.
\<close>

lemma buscarItem_linhaDe:
  "buscarItem itemId ps = Some l \<Longrightarrow>
   \<exists>p\<in>set ps. \<exists>i\<in>set (listaDeItens p). l = linhaDe p i \<and> item_id i = itemId \<and> item_disponivel i"
proof (induction ps)
  case Nil
  then show ?case by simp
next
  case (Cons p ps)
  show ?case
  proof (cases "find (\<lambda>i. item_id i = itemId) (listaDeItens p)")
    case None
    with Cons show ?thesis by auto
  next
    case (Some i)
    then have i: "i \<in> set (listaDeItens p)" "item_id i = itemId"
      by (auto simp: find_Some_iff)
    show ?thesis
    proof (cases "item_disponivel i")
      case True
      with Some Cons.prems have "l = linhaDe p i" by simp
      with i True show ?thesis by auto
    next
      case False
      with Some Cons show ?thesis by auto
    qed
  qed
qed

lemma adicionarAoCarrinho_linha:
  "adicionarAoCarrinho itemId w = (None, w') \<Longrightarrow>
   \<exists>p\<in>set (produtores (app w)). \<exists>i\<in>set (listaDeItens p).
      carrinho (app w') = carrinho (app w) @ [linhaDe p i] \<and> item_id i = itemId \<and> item_disponivel i"
  by (auto simp: adicionarAoCarrinho_def split: if_splits option.splits dest!: buscarItem_linhaDe) blast

lemma lojaComCarrinho_app:
  "app lojaComCarrinho =
     \<lparr>usuarioLogado = RefUsuario 1,
      carrinho = [linhaDe (produtoresDemo ! 0) (listaDeItens (produtoresDemo ! 0) ! 0),
                  linhaDe (produtoresDemo ! 0) (listaDeItens (produtoresDemo ! 0) ! 1)],
      produtores = produtoresDemo, usuarios = usuariosDemo, pedidos = [], admin = adminPadrao,
      configPagamento = configPadrao\<rparr>"
  by (simp add: lojaComCarrinho_def aoCarregarPagina_def lojaInicial_def carregarDados_def
      inicializarDadosParaao_def salvarDados_def carregarConfigPagamento_def atualizarUI_def
      usuarioEstaLogado_def handleLoginForm_def adicionarAoCarrinho_def ambienteDemo_def
      sanitizar_def escapar_def validarEmail_def ehEspaco_def usuariosDemo_def produtoresDemo_def
      hashSenhaSimples_def toStringRadix.simps digitoDe_def linhaDe_def Let_def)

lemma formularioDemo_valido: "validarDadosCompra (dadosDoFormulario formularioDemo) = Inr ()"
  by (simp add: validarDadosCompra_def dadosDoFormulario_def formularioDemo_def requiredFields_def
      campoVazio_def trim_def ehEspaco_def sanitizar_def escapar_def validarEmail_def cartaoOk_def
      cvvOk_def ehDigito_def)

lemma produtoresDemo_bem_formado: "estoqueBemFormado produtoresDemo"
  by (simp add: estoqueBemFormado_def produtoresDemo_def todosItens_def)

section \<open>Checkout\<close>



text \<open>
  Claim C2. When the payment is declined, the timer of \<open>processarPagamento\<close> changes
  nothing, whatever the payload; so a checkout whose payload passes the validation and
  whose payment is declined leaves the whole state as it was: the availability of every
  item, the cart and the orders are those from before the call.
\<close>

theorem checkout_recusado_nada_muda:
  "processarPagamento env False t agora d w = (Some PagamentoRecusado, w)
   \<and> (validarDadosCompra (dadosDoFormulario f) = Inr () \<longrightarrow>
        checkout env False t agora f w = (Some PagamentoRecusado, w)
        \<and> produtores (app (snd (checkout env False t agora f w))) = produtores (app w)
        \<and> carrinho (app (snd (checkout env False t agora f w))) = carrinho (app w)
        \<and> pedidos (app (snd (checkout env False t agora f w))) = pedidos (app w))"
  by (simp add: processarPagamento_def checkout_def handleCheckoutForm_def Let_def)

theorem checkout_recusado_nada_muda_witness:
  "validarDadosCompra (dadosDoFormulario formularioDemo) = Inr ()
   \<and> checkout ambienteDemo False 1700000000000 ''2024-01-01T00:00:00.000Z'' formularioDemo lojaComCarrinho
       = (Some PagamentoRecusado, lojaComCarrinho)
   \<and> length (carrinho (app lojaComCarrinho)) = 2
   \<and> pedidos (app (snd (checkout ambienteDemo False 1700000000000 ''2024-01-01T00:00:00.000Z''
                          formularioDemo lojaComCarrinho))) = []"
  using checkout_recusado_nada_muda
          [of ambienteDemo 1700000000000 "''2024-01-01T00:00:00.000Z''" "dadosDoFormulario formularioDemo"
              lojaComCarrinho formularioDemo]
        formularioDemo_valido
  by (simp add: lojaComCarrinho_app)

text \<open>
  The form handler removes every character that is not a digit from the card field before
  it validates: when it arms the payment, the digits typed in the card field are 16.
\<close>

lemma digito_nao_espaco: "ehDigito c \<Longrightarrow> \<not> ehEspaco c"
  by (auto simp: ehDigito_def ehEspaco_def)

lemma handleCheckoutForm_cartao:
  assumes "handleCheckoutForm f = Inr d"
  shows "d = dadosDoFormulario f \<and> d_cartao d = filter ehDigito (checkoutCartao f)
         \<and> length (filter ehDigito (checkoutCartao f)) = 16"
proof -
  have d: "d = dadosDoFormulario f" and v: "validarDadosCompra (dadosDoFormulario f) = Inr ()"
    using assms by (auto simp: handleCheckoutForm_def Let_def split: sum.splits)
  have c: "d_cartao (dadosDoFormulario f) = filter ehDigito (checkoutCartao f)"
    by (simp add: dadosDoFormulario_def)
  have "cartaoOk (d_cartao (dadosDoFormulario f))"
    using v by (simp add: validarDadosCompra_def split: option.splits if_splits)
  moreover have "filter (\<lambda>x. \<not> ehEspaco x) (filter ehDigito (checkoutCartao f)) = filter ehDigito (checkoutCartao f)"
    by (rule filter_True) (simp add: digito_nao_espaco)
  ultimately have "length (filter ehDigito (checkoutCartao f)) = 16"
    by (simp add: cartaoOk_def c Let_def)
  with d c show ?thesis by simp
qed



section \<open>Session and cart\<close>

lemma alcancavel_carrinho:
  "alcancavel env w \<Longrightarrow> usuarioLogado (app w) = Anonimo \<longrightarrow> carrinho (app w) = []"
proof (induction rule: alcancavel.induct)
  case (inicio dadosTxt configTxt)
  then show ?case
    by (simp add: aoCarregarPagina_def atualizarUI_def usuarioEstaLogado_def)
next
  case (login w e p)
  then show ?case
    by (auto simp: handleLoginForm_def Let_def atualizarUI_def usuarioEstaLogado_def salvarDados_def
        split: option.splits)
next
  case (registro w t rf)
  then show ?case
    by (auto simp: handleRegistroForm_def Let_def atualizarUI_def usuarioEstaLogado_def salvarDados_def)
next
  case (loginAdmin w e p)
  then show ?case
    by (auto simp: handleLoginAdminForm_def Let_def atualizarUI_def usuarioEstaLogado_def salvarDados_def)
next
  case (logout w)
  then show ?case
    by (simp add: handleLogout_def atualizarUI_def usuarioEstaLogado_def salvarDados_def)
next
  case (adicionar w itemId)
  then show ?case
    by (auto simp: adicionarAoCarrinho_def usuarioEstaLogado_def split: option.splits)
next
  case (remover w itemId)
  then show ?case by (simp add: removerDoCarrinho_def)
next
  case (pagamento w sucesso t agora d)
  then show ?case
    by (auto simp: processarPagamento_def finalizarCompraComSucesso_def Let_def salvarDados_def
        split: option.splits)
next
  case (ui w)
  then show ?case by (simp add: atualizarUI_def usuarioEstaLogado_def)
next
  case (novoProdutor w t n e)
  then show ?case
    by (auto simp: handleNovoProductorForm_def Let_def salvarDados_def)
next
  case (novoItem w t pid n ds pr)
  then show ?case
    by (auto simp: handleNovoItemForm_def Let_def salvarDados_def)
next
  case (removeProdutor w pid c)
  then show ?case
    by (auto simp: removerProdutor_def salvarDados_def)
next
  case (removeItem w pid itemId)
  then show ?case
    by (auto simp: removerItemProdutor_def salvarDados_def)
next
  case (config w pv k1 k2)
  then show ?case
    by (auto simp: handleConfigPagamentoForm_def Let_def)
qed

lemma lojaComCarrinho_alcancavel: "alcancavel ambienteDemo lojaComCarrinho"
  unfolding lojaComCarrinho_def
  by (intro alcancavel.adicionar alcancavel.login alcancavel.inicio)

text \<open>
  Claim C10. In the shop, \<open>handleLogout\<close> leaves nobody logged in and the cart empty,
  \<open>atualizarUI\<close> empties the cart when it finds nobody logged in, and in every state
  the page can reach, nobody logged in implies an empty cart.
\<close>

theorem sem_sessao_carrinho_vazio:
  "usuarioLogado (app (handleLogout env w)) = Anonimo
   \<and> carrinho (app (handleLogout env w)) = []
   \<and> (\<not> usuarioEstaLogado (app w) \<longrightarrow> carrinho (app (atualizarUI w)) = [])
   \<and> (alcancavel env w \<longrightarrow> \<not> usuarioEstaLogado (app w) \<longrightarrow> carrinho (app w) = [])"
  using alcancavel_carrinho [of env w]
  by (simp add: handleLogout_def atualizarUI_def usuarioEstaLogado_def salvarDados_def)

theorem sem_sessao_carrinho_vazio_witness:
  "alcancavel ambienteDemo (handleLogout ambienteDemo lojaComCarrinho)
   \<and> \<not> usuarioEstaLogado (app (handleLogout ambienteDemo lojaComCarrinho))
   \<and> length (carrinho (app lojaComCarrinho)) = 2
   \<and> carrinho (app (handleLogout ambienteDemo lojaComCarrinho)) = []
   \<and> \<not> usuarioEstaLogado (app (removerDoCarrinho ''item_001'' (handleLogout ambienteDemo lojaComCarrinho)))
   \<and> carrinho (app (atualizarUI (removerDoCarrinho ''item_001'' (handleLogout ambienteDemo lojaComCarrinho)))) = []"
proof -
  let ?w = "handleLogout ambienteDemo lojaComCarrinho"
  have r: "alcancavel ambienteDemo ?w"
    by (rule alcancavel.logout [OF lojaComCarrinho_alcancavel])
  have n: "\<not> usuarioEstaLogado (app ?w)"
    by (simp add: handleLogout_def atualizarUI_def usuarioEstaLogado_def salvarDados_def)
  have n': "\<not> usuarioEstaLogado (app (removerDoCarrinho ''item_001'' ?w))"
    using n by (simp add: removerDoCarrinho_def usuarioEstaLogado_def)
  have l: "length (carrinho (app lojaComCarrinho)) = 2"
    by (simp add: lojaComCarrinho_app)
  show ?thesis
    using sem_sessao_carrinho_vazio [of ambienteDemo ?w]
          sem_sessao_carrinho_vazio [of ambienteDemo "removerDoCarrinho ''item_001'' ?w"]
          r n n' l
    by blast
qed

section \<open>Admin panel: users, plans and the stored texts\<close>

lemma criarUsuario_distinct:
  "distinct (map username (users s)) \<Longrightarrow>
   distinct (map username (users (snd (criarUsuario env t agora uname pw lt s))))"
  by (auto simp: criarUsuario_def saveUsers_def Let_def list_ex_iff)

lemma criarUsuario_duplicate:
  "uname \<in> username ` set (users s) \<Longrightarrow>
   \<exists>m. criarUsuario env t agora uname pw lt s = (Some (ValidationError m), s)"
  by (auto simp: criarUsuario_def list_ex_iff)

lemma handleCreateUser_roles_distinct:
  "distinct (map username (users s)) \<Longrightarrow>
   distinct (map username (users (snd (handleCreateUser_roles env t agora f s))))"
  by (auto simp: handleCreateUser_roles_def criarUsuario_distinct split: sum.splits)

lemma handleCreateUser_roles_seq_distinct:
  "distinct (map username (users s)) \<Longrightarrow>
   distinct (map username (users (handleCreateUser_roles_seq env cs s)))"
proof (induction cs arbitrary: s)
  case Nil
  then show ?case by simp
next
  case (Cons c cs)
  obtain t agora f where c: "c = (t, agora, f)" by (cases c) auto
  show ?case
    unfolding c handleCreateUser_roles_seq.simps
    by (rule Cons.IH) (rule handleCreateUser_roles_distinct [OF Cons.prems])
qed

lemma loginTime_roles_error:
  "loginTime_roles ps f = Inl e \<Longrightarrow> \<exists>m. e = ValidationError m"
  by (auto simp: loginTime_roles_def Let_def split: if_splits option.splits)

lemma handleCreateUser_roles_duplicate:
  assumes "trim (newUsername f) \<in> username ` set (users s)"
  shows "(\<exists>e. handleCreateUser_roles env t agora f s = (Some e, s))
       \<and> (currentUserIsAdmin s \<longrightarrow>
            (\<exists>m. handleCreateUser_roles env t agora f s = (Some (ValidationError m), s)))
       \<and> (currentUserIsAdmin s \<and> (\<exists>lt. loginTime_roles (plans s) f = Inr lt)
            \<and> 3 \<le> length (trim (newUsername f)) \<and> 4 \<le> length (newPassword f)
           \<longrightarrow> handleCreateUser_roles env t agora f s = (Some (ValidationError UsuarioJaExiste), s))"
  using criarUsuario_duplicate [OF assms] assms
  by (auto simp: handleCreateUser_roles_def criarUsuario_def list_ex_iff split: sum.splits
      dest: loginTime_roles_error)

lemma handleRegistroForm_distinct:
  "distinct (map usr_email (usuarios (app w))) \<Longrightarrow>
   distinct (map usr_email (usuarios (app (snd (handleRegistroForm env t rf w)))))"
  by (auto simp: handleRegistroForm_def Let_def atualizarUI_def salvarDados_def list_ex_iff)

lemma handleRegistroForm_duplicate:
  "sanitizar (registroEmail rf) \<in> usr_email ` set (usuarios (app w)) \<Longrightarrow>
   \<exists>m. handleRegistroForm env t rf w = (Some (ValidationError m), w)"
  by (auto simp: handleRegistroForm_def Let_def list_ex_iff)

text \<open>
  Claim C6. Usernames stay unique: from users with distinct usernames, any sequence of
  \<open>handleCreateUser\<close> submissions leaves users with distinct usernames. A submission
  whose (trimmed) username is already there is refused and changes nothing; the refusal
  is a validation error whenever the current user is an admin, and it is the error
  "this user already exists" when the plan, the length of the username and the length of
  the password pass. The registration form of the shop does the same with the e-mail.
\<close>

theorem usernames_permanecem_unicos:
  "(distinct (map username (users s)) \<longrightarrow>
      distinct (map username (users (handleCreateUser_roles_seq env cs s))))
   \<and> (trim (newUsername f) \<in> username ` set (users s) \<longrightarrow>
        (\<exists>e. handleCreateUser_roles env t agora f s = (Some e, s))
        \<and> (currentUserIsAdmin s \<longrightarrow>
             (\<exists>m. handleCreateUser_roles env t agora f s = (Some (ValidationError m), s)))
        \<and> (currentUserIsAdmin s \<and> (\<exists>lt. loginTime_roles (plans s) f = Inr lt)
             \<and> 3 \<le> length (trim (newUsername f)) \<and> 4 \<le> length (newPassword f)
            \<longrightarrow> handleCreateUser_roles env t agora f s = (Some (ValidationError UsuarioJaExiste), s)))
   \<and> (distinct (map usr_email (usuarios (app w))) \<longrightarrow>
        distinct (map usr_email (usuarios (app (snd (handleRegistroForm lenv t' rf w))))))
   \<and> (sanitizar (registroEmail rf) \<in> usr_email ` set (usuarios (app w)) \<longrightarrow>
        (\<exists>m. handleRegistroForm lenv t' rf w = (Some (ValidationError m), w)))"
  using handleCreateUser_roles_seq_distinct [of s env cs]
        handleCreateUser_roles_duplicate [of f s env t agora]
        handleRegistroForm_distinct [of w lenv t' rf]
        handleRegistroForm_duplicate [of rf w lenv t']
  by blast

text \<open>The admin panel with the default admin logged in, and two forms for the same name.\<close>

theorem usernames_permanecem_unicos_witness:
  "distinct (map username (users (estadoPadrao\<lparr>currentUser := Some (hd (users estadoPadrao))\<rparr>)))
   \<and> map username (users (handleCreateUser_roles_seq painelDemo
        [(1700000000000, ''2024-01-01T00:00:00.000Z'',
          \<lparr>newUsername = '' alice '', newPassword = ''segredo'', planSelect = Some ''3'', newLoginTime = []\<rparr>),
         (1700000000001, ''2024-01-01T00:00:01.000Z'',
          \<lparr>newUsername = ''admin'', newPassword = ''outra'', planSelect = Some ''custom'', newLoginTime = ''5''\<rparr>)]
        (estadoPadrao\<lparr>currentUser := Some (hd (users estadoPadrao))\<rparr>)))
      = [''admin'', ''alice'']
   \<and> trim ''admin'' \<in> username ` set (users (estadoPadrao\<lparr>currentUser := Some (hd (users estadoPadrao))\<rparr>))
   \<and> handleCreateUser_roles painelDemo 1700000000001 ''2024-01-01T00:00:01.000Z''
        \<lparr>newUsername = ''admin'', newPassword = ''outra'', planSelect = Some ''custom'', newLoginTime = ''5''\<rparr>
        (estadoPadrao\<lparr>currentUser := Some (hd (users estadoPadrao))\<rparr>)
      = (Some (ValidationError UsuarioJaExiste), estadoPadrao\<lparr>currentUser := Some (hd (users estadoPadrao))\<rparr>)
   \<and> distinct (map usr_email (usuarios (app lojaComCarrinho)))
   \<and> sanitizar ''maria@example.com'' \<in> usr_email ` set (usuarios (app lojaComCarrinho))
   \<and> (\<exists>m. handleRegistroForm ambienteDemo 1700000000002
              \<lparr>registroNome = ''Maria'', registroEmail = ''maria@example.com'',
               registroSenha = ''abcdef'', registroConfirm = ''abcdef''\<rparr> lojaComCarrinho
            = (Some (ValidationError m), lojaComCarrinho))"
  using usernames_permanecem_unicos
          [where s = "estadoPadrao\<lparr>currentUser := Some (hd (users estadoPadrao))\<rparr>"
             and env = painelDemo and t = 1700000000001 and agora = "''2024-01-01T00:00:01.000Z''"
             and f = "\<lparr>newUsername = ''admin'', newPassword = ''outra'', planSelect = Some ''custom'', newLoginTime = ''5''\<rparr>"
             and w = lojaComCarrinho and lenv = ambienteDemo and t' = 1700000000002
             and rf = "\<lparr>registroNome = ''Maria'', registroEmail = ''maria@example.com'',
                        registroSenha = ''abcdef'', registroConfirm = ''abcdef''\<rparr>"
             and cs = "[(1700000000000, ''2024-01-01T00:00:00.000Z'',
                         \<lparr>newUsername = '' alice '', newPassword = ''segredo'', planSelect = Some ''3'', newLoginTime = []\<rparr>),
                        (1700000000001, ''2024-01-01T00:00:01.000Z'',
                         \<lparr>newUsername = ''admin'', newPassword = ''outra'', planSelect = Some ''custom'', newLoginTime = ''5''\<rparr>)]"]
  by (simp add: estadoPadrao_def getDefaultUsers_def getDefaultPlans_def currentUserIsAdmin_def
      handleCreateUser_roles_def loginTime_roles_def criarUsuario_def saveUsers_def painelDemo_def
      trim_def ehEspaco_def parseInt_def parseIntSemSinal_def ehDigitoBase_def valorDigito_def
      valorNumeral_def ouPadrao_def String_nat_def toStringRadix.simps digitoDe_def
      convertPlanToMinutes_def round_def Let_def
      lojaComCarrinho_app usuariosDemo_def sanitizar_def escapar_def)

text \<open>
  Claim C7, as the two panels have it. In the panel with roles, \<open>deletePlan\<close> called
  by a current user that is not an admin (or with nobody logged in) is refused and
  changes nothing. The panel with plans and no roles, where only an admin can log in, has
  no check of the role in \<open>deletePlan\<close>: once confirmed it removes the plans with that
  id whoever the current user is, and it changes nothing when not confirmed.
\<close>

theorem deletePlan_por_painel:
  "(\<not> currentUserIsAdmin s \<longrightarrow>
      deletePlan_roles env i confirma s = (Some (AuthError ApenasAdminDeletaPlanos), s)
      \<and> plans (snd (deletePlan_roles env i confirma s)) = plans s)
   \<and> deletePlan_plans env i True s
       = (None, savePlans env (s\<lparr>plans := filter (\<lambda>p. plan_id p \<noteq> i) (plans s)\<rparr>))
   \<and> deletePlan_plans env i False s = (None, s)"
  by (simp add: deletePlan_roles_def deletePlan_plans_def)

theorem deletePlan_por_painel_witness:
  "\<not> currentUserIsAdmin estadoPadrao
   \<and> deletePlan_roles painelDemo 1 True estadoPadrao
       = (Some (AuthError ApenasAdminDeletaPlanos), estadoPadrao)
   \<and> plans (snd (deletePlan_roles painelDemo 1 True estadoPadrao)) = getDefaultPlans"
  using deletePlan_por_painel [of estadoPadrao painelDemo 1 True]
  by (simp add: estadoPadrao_def currentUserIsAdmin_def)

text \<open>
  In the panel with plans and no roles, with nobody logged in, \<open>deletePlan(1)\<close>
  confirmed reports no error and the plans are no longer the same.
\<close>

theorem deletePlan_sem_roles_counterexample:
  "\<not> currentUserIsAdmin estadoPadrao
   \<and> fst (deletePlan_plans painelDemo 1 True estadoPadrao) = None
   \<and> map plan_id (plans estadoPadrao) = [1, 2, 3, 4]
   \<and> map plan_id (plans (snd (deletePlan_plans painelDemo 1 True estadoPadrao))) = [2, 3, 4]"
  by (simp add: deletePlan_plans_def estadoPadrao_def currentUserIsAdmin_def savePlans_def
      getDefaultPlans_def)

lemma convertPlanToMinutes_ge_1: "1 \<le> convertPlanToMinutes p"
  by (simp add: convertPlanToMinutes_def Let_def)

text \<open>
  Claim C9, as the two panels have it. In the panel with roles: no selection is a
  validation error; a custom selection gives the integer typed when it is at least 1
  (which is then \<open>max(1, n)\<close>) and a validation error when it is less than 1 or not a
  number; the id of a plan gives the minutes of that plan, at least 1; so every selection
  the select offers (none, custom, the id of a plan there is) gives a minute count of at
  least 1 or a validation error. In the panel with plans and no roles nothing is refused:
  no selection counts as custom, a custom text that parses to \<open>NaN\<close> or 0 gives the
  default 30, an integer of at least 1 is taken as it is, and the id of a plan gives the
  minutes of that plan.
\<close>

theorem loginTime_por_painel:
  "(planSelect f \<in> {None, Some []} \<longrightarrow> loginTime_roles ps f = Inl (ValidationError SelecioneUmPlano))
   \<and> (planSelect f = Some ''custom'' \<longrightarrow>
        loginTime_roles ps f =
          (case parseInt (newLoginTime f) of
             None \<Rightarrow> Inl (ValidationError TempoCustomMinimo)
           | Some n \<Rightarrow> if n < 1 then Inl (ValidationError TempoCustomMinimo) else Inr (max 1 n)))
   \<and> (planSelect f = Some k \<and> k \<noteq> [] \<and> k \<noteq> ''custom''
        \<and> find (\<lambda>p. String_nat (plan_id p) = k) ps = Some p \<longrightarrow>
        loginTime_roles ps f = Inr (convertPlanToMinutes p) \<and> 1 \<le> convertPlanToMinutes p)
   \<and> (planSelect f \<in> {None, Some [], Some ''custom''} \<union> (\<lambda>p. Some (String_nat (plan_id p))) ` set ps \<longrightarrow>
        (\<exists>n. loginTime_roles ps f = Inr n \<and> 1 \<le> n)
        \<or> (\<exists>m. loginTime_roles ps f = Inl (ValidationError m)))
   \<and> (planSelect f \<in> {None, Some [], Some ''custom''} \<and> parseInt (newLoginTime f) \<in> {None, Some 0} \<longrightarrow>
        loginTime_plans ps f = 30)
   \<and> (planSelect f \<in> {None, Some [], Some ''custom''} \<and> parseInt (newLoginTime f) = Some n \<and> 1 \<le> n \<longrightarrow>
        loginTime_plans ps f = n)
   \<and> (planSelect f = Some k \<and> k \<noteq> [] \<and> k \<noteq> ''custom''
        \<and> find (\<lambda>p. String_nat (plan_id p) = k) ps = Some p \<longrightarrow>
        loginTime_plans ps f = convertPlanToMinutes p)"
proof -
  have a: "loginTime_roles ps f = Inl (ValidationError SelecioneUmPlano)"
    if "planSelect f \<in> {None, Some []}"
    using that by (auto simp: loginTime_roles_def)
  have b: "loginTime_roles ps f =
          (case parseInt (newLoginTime f) of
             None \<Rightarrow> Inl (ValidationError TempoCustomMinimo)
           | Some n \<Rightarrow> if n < 1 then Inl (ValidationError TempoCustomMinimo) else Inr (max 1 n))"
    if "planSelect f = Some ''custom''"
    using that by (auto simp: loginTime_roles_def ouPadrao_def Let_def split: option.splits)
  have c: "loginTime_roles ps f = Inr (convertPlanToMinutes p) \<and> 1 \<le> convertPlanToMinutes p"
    if "planSelect f = Some k \<and> k \<noteq> [] \<and> k \<noteq> ''custom''
        \<and> find (\<lambda>p. String_nat (plan_id p) = k) ps = Some p"
    using that by (simp add: loginTime_roles_def convertPlanToMinutes_ge_1)
  have d: "(\<exists>n. loginTime_roles ps f = Inr n \<and> 1 \<le> n)
        \<or> (\<exists>m. loginTime_roles ps f = Inl (ValidationError m))"
    if s: "planSelect f \<in> {None, Some [], Some ''custom''} \<union> (\<lambda>p. Some (String_nat (plan_id p))) ` set ps"
  proof (cases "planSelect f \<in> {None, Some []}")
    case True
    then show ?thesis using a by blast
  next
    case False
    show ?thesis
    proof (cases "planSelect f = Some ''custom''")
      case True
      then show ?thesis
        using b by (auto split: option.splits)
    next
      case custom: False
      with False s obtain q where q: "q \<in> set ps" "planSelect f = Some (String_nat (plan_id q))"
        by auto
      then have "find (\<lambda>p. String_nat (plan_id p) = String_nat (plan_id q)) ps \<noteq> None"
        by (auto simp: find_None_iff)
      then obtain p where "find (\<lambda>p. String_nat (plan_id p) = String_nat (plan_id q)) ps = Some p"
        by auto
      with q False custom show ?thesis
        by (simp add: loginTime_roles_def convertPlanToMinutes_ge_1)
    qed
  qed
  have e: "loginTime_plans ps f = 30"
    if "planSelect f \<in> {None, Some [], Some ''custom''} \<and> parseInt (newLoginTime f) \<in> {None, Some 0}"
    using that by (auto simp: loginTime_plans_def ouPadrao_def Let_def)
  have g: "loginTime_plans ps f = n"
    if "planSelect f \<in> {None, Some [], Some ''custom''} \<and> parseInt (newLoginTime f) = Some n \<and> 1 \<le> n"
    using that by (auto simp: loginTime_plans_def ouPadrao_def Let_def)
  have h: "loginTime_plans ps f = convertPlanToMinutes p"
    if "planSelect f = Some k \<and> k \<noteq> [] \<and> k \<noteq> ''custom''
        \<and> find (\<lambda>p. String_nat (plan_id p) = k) ps = Some p"
    using that by (simp add: loginTime_plans_def Let_def)
  show ?thesis
    using a b c d e g h by blast
qed

theorem loginTime_por_painel_witness:
  "loginTime_roles getDefaultPlans
      \<lparr>newUsername = ''bob'', newPassword = ''1234'', planSelect = Some [], newLoginTime = ''45''\<rparr>
     = Inl (ValidationError SelecioneUmPlano)
   \<and> parseInt ''45'' = Some 45
   \<and> loginTime_roles getDefaultPlans
      \<lparr>newUsername = ''bob'', newPassword = ''1234'', planSelect = Some ''custom'', newLoginTime = ''45''\<rparr>
     = Inr 45
   \<and> parseInt ''0'' = Some 0
   \<and> loginTime_roles getDefaultPlans
      \<lparr>newUsername = ''bob'', newPassword = ''1234'', planSelect = Some ''custom'', newLoginTime = ''0''\<rparr>
     = Inl (ValidationError TempoCustomMinimo)
   \<and> find (\<lambda>p. String_nat (plan_id p) = ''3'') getDefaultPlans = Some (getDefaultPlans ! 2)
   \<and> loginTime_roles getDefaultPlans
      \<lparr>newUsername = ''bob'', newPassword = ''1234'', planSelect = Some ''3'', newLoginTime = []\<rparr>
     = Inr 10080
   \<and> parseInt [] = None
   \<and> loginTime_plans getDefaultPlans
      \<lparr>newUsername = ''bob'', newPassword = ''1234'', planSelect = None, newLoginTime = []\<rparr>
     = 30
   \<and> loginTime_plans getDefaultPlans
      \<lparr>newUsername = ''bob'', newPassword = ''1234'', planSelect = Some ''custom'', newLoginTime = ''45''\<rparr>
     = 45
   \<and> loginTime_plans getDefaultPlans
      \<lparr>newUsername = ''bob'', newPassword = ''1234'', planSelect = Some ''3'', newLoginTime = []\<rparr>
     = 10080"
proof -
  have p45: "parseInt ''45'' = Some 45" and p0: "parseInt ''0'' = Some 0" and pe: "parseInt [] = None"
    by (simp_all add: parseInt_def parseIntSemSinal_def ehEspaco_def ehDigitoBase_def
        valorDigito_def valorNumeral_def Let_def)
  have f3: "find (\<lambda>p. String_nat (plan_id p) = ''3'') getDefaultPlans = Some (getDefaultPlans ! 2)"
    by (simp add: getDefaultPlans_def String_nat_def toStringRadix.simps digitoDe_def)
  have c3: "convertPlanToMinutes (getDefaultPlans ! 2) = 10080"
    using exact_chain [of 1 7 24 60]
    by (simp add: getDefaultPlans_def convertPlanToMinutes_def Let_def)
  show ?thesis
    using loginTime_por_painel
            [of "\<lparr>newUsername = ''bob'', newPassword = ''1234'', planSelect = Some [], newLoginTime = ''45''\<rparr>"
                getDefaultPlans]
          loginTime_por_painel
            [of "\<lparr>newUsername = ''bob'', newPassword = ''1234'', planSelect = Some ''custom'', newLoginTime = ''45''\<rparr>"
                getDefaultPlans _ _ 45]
          loginTime_por_painel
            [of "\<lparr>newUsername = ''bob'', newPassword = ''1234'', planSelect = Some ''custom'', newLoginTime = ''0''\<rparr>"
                getDefaultPlans]
          loginTime_por_painel
            [of "\<lparr>newUsername = ''bob'', newPassword = ''1234'', planSelect = Some ''3'', newLoginTime = []\<rparr>"
                getDefaultPlans "''3''" "getDefaultPlans ! 2"]
          loginTime_por_painel
            [of "\<lparr>newUsername = ''bob'', newPassword = ''1234'', planSelect = None, newLoginTime = []\<rparr>"
                getDefaultPlans]
          p45 p0 pe f3 c3
    by simp
qed

text \<open>
  In the panel with plans and no roles, a custom selection whose text parses to 0, which
  is less than 1, is not refused: the user is created, with the login time 30.
\<close>

theorem loginTime_sem_erro_counterexample:
  "parseInt ''0'' = Some 0
   \<and> fst (handleCreateUser_plans painelDemo 1700000000000 ''2024-01-01T00:00:00.000Z''
        \<lparr>newUsername = ''bob'', newPassword = ''1234'', planSelect = Some ''custom'', newLoginTime = ''0''\<rparr>
        estadoPadrao) = None
   \<and> map (\<lambda>u. (username u, loginTime u))
        (users (snd (handleCreateUser_plans painelDemo 1700000000000 ''2024-01-01T00:00:00.000Z''
           \<lparr>newUsername = ''bob'', newPassword = ''1234'', planSelect = Some ''custom'', newLoginTime = ''0''\<rparr>
           estadoPadrao)))
      = [(''admin'', 60), (''bob'', 30)]"
  by (simp add: handleCreateUser_plans_def loginTime_plans_def criarUsuario_def saveUsers_def
      estadoPadrao_def getDefaultUsers_def trim_def parseInt_def parseIntSemSinal_def ehEspaco_def
      ehDigitoBase_def valorDigito_def valorNumeral_def ouPadrao_def Let_def)

text \<open>
  What \<open>carregarDados\<close> of the shop does with a text that does not parse, and with no
  text: the default data, and no exception (the function has no error to return).
\<close>

lemma carregarDados_padrao:
  "ls_dados w = None \<or> ls_dados w = Some [] \<or> (\<exists>txt. ls_dados w = Some txt \<and> JSON_parse env txt = None)
   \<Longrightarrow> carregarDados env w = inicializarDadosParaao env w"
  by (auto simp: carregarDados_def)

text \<open>
  Claim C5, on \<open>loadUserData\<close> of the admin panel. When the text stored under
  \<open>users\<close> is not empty and \<open>JSON.parse\<close> rejects it, the exception leaves
  \<open>loadUserData\<close>: the method ends in a \<open>SyntaxError\<close> and the users are not set to
  the default ones.
\<close>

theorem loadUserData_texto_malformado:
  "ls_users s = Some txt \<Longrightarrow> txt \<noteq> [] \<Longrightarrow> parse_users env txt = None \<Longrightarrow>
   loadUserData env agora s = (Some SyntaxError, s)"
  by (simp add: loadUserData_def)

theorem loadUserData_texto_malformado_witness:
  "ls_users (estadoPadrao\<lparr>users := [], ls_users := Some ''{''\<rparr>) = Some ''{''
   \<and> ''{'' \<noteq> []
   \<and> parse_users painelDemo ''{'' = None
   \<and> loadUserData painelDemo ''2024-01-01T00:00:00.000Z'' (estadoPadrao\<lparr>users := [], ls_users := Some ''{''\<rparr>)
       = (Some SyntaxError, estadoPadrao\<lparr>users := [], ls_users := Some ''{''\<rparr>)
   \<and> users (snd (loadUserData painelDemo ''2024-01-01T00:00:00.000Z''
                    (estadoPadrao\<lparr>users := [], ls_users := Some ''{''\<rparr>))) = []"
  using loadUserData_texto_malformado
          [of "estadoPadrao\<lparr>users := [], ls_users := Some ''{''\<rparr>" "''{''" painelDemo
              "''2024-01-01T00:00:00.000Z''"]
  by (simp add: painelDemo_def)

end
